theory Spec2Isabelle
  imports Main "HOL-Library.Sublist"
begin

section \<open>Values of the host language and of the wire\<close>

text \<open>
  The client of \<^verbatim>\<open>src/gong-client.ts\<close> moves three kinds of data around: JSON documents
  on the wire, the values a decoded document becomes inside the program (where a missing
  property reads as \<^verbatim>\<open>undefined\<close>), and text. Text is a \<open>string\<close>, read as the
  UTF-8 bytes of the program's string. Numbers are only carried through and tested for
  zero, so integers stand for them. A JSON object is the list of its members in order,
  each name once, as decoding leaves it.
\<close>

datatype json =
    JNull
  | JBool bool
  | JNum int
  | JStr string
  | JArr "json list"
  | JObj "(string \<times> json) list"

datatype jsval =
    Undefined
  | Null
  | Bool bool
  | Num int
  | Str string
  | Arr "jsval list"
  | Obj "(string \<times> jsval) list"

datatype js_error =
    Error string         \<comment> \<open>\<^verbatim>\<open>new Error(message)\<close>\<close>
  | TypeError string     \<comment> \<open>a property read on \<^verbatim>\<open>undefined\<close> or \<^verbatim>\<open>null\<close>; carries the property name\<close>
  | SyntaxError          \<comment> \<open>\<^verbatim>\<open>response.json()\<close> on a body that is not JSON\<close>
  | FetchError string    \<comment> \<open>\<^verbatim>\<open>fetch\<close> itself rejected\<close>

text \<open>What \<^verbatim>\<open>response.json()\<close> hands to the program: the document, as a value.\<close>

fun of_json :: "json \<Rightarrow> jsval"
  and of_json_list :: "json list \<Rightarrow> jsval list"
  and of_json_props :: "(string \<times> json) list \<Rightarrow> (string \<times> jsval) list" where
  "of_json JNull = Null"
| "of_json (JBool b) = Bool b"
| "of_json (JNum n) = Num n"
| "of_json (JStr s) = Str s"
| "of_json (JArr xs) = Arr (of_json_list xs)"
| "of_json (JObj kvs) = Obj (of_json_props kvs)"
| "of_json_list [] = []"
| "of_json_list (x # xs) = of_json x # of_json_list xs"
| "of_json_props [] = []"
| "of_json_props ((k, v) # kvs) = (k, of_json v) # of_json_props kvs"

text \<open>
  \<^verbatim>\<open>JSON.stringify\<close>, up to the document its text denotes: a property whose value is
  \<^verbatim>\<open>undefined\<close> is left out, an \<^verbatim>\<open>undefined\<close> array element becomes \<^verbatim>\<open>null\<close>, and
  \<^verbatim>\<open>undefined\<close> itself has no serialisation.
\<close>

fun JSON_stringify :: "jsval \<Rightarrow> json option"
  and stringify_elems :: "jsval list \<Rightarrow> json list"
  and stringify_props :: "(string \<times> jsval) list \<Rightarrow> (string \<times> json) list" where
  "JSON_stringify Undefined = None"
| "JSON_stringify Null = Some JNull"
| "JSON_stringify (Bool b) = Some (JBool b)"
| "JSON_stringify (Num n) = Some (JNum n)"
| "JSON_stringify (Str s) = Some (JStr s)"
| "JSON_stringify (Arr xs) = Some (JArr (stringify_elems xs))"
| "JSON_stringify (Obj kvs) = Some (JObj (stringify_props kvs))"
| "stringify_elems [] = []"
| "stringify_elems (x # xs) =
     (case JSON_stringify x of None \<Rightarrow> JNull | Some j \<Rightarrow> j) # stringify_elems xs"
| "stringify_props [] = []"
| "stringify_props ((k, v) # kvs) =
     (case JSON_stringify v of None \<Rightarrow> stringify_props kvs
      | Some j \<Rightarrow> (k, j) # stringify_props kvs)"

text \<open>Truthiness, as \<^verbatim>\<open>if (x)\<close>, \<^verbatim>\<open>x ? a : b\<close> and \<^verbatim>\<open>x || y\<close> test it.\<close>

fun truthy :: "jsval \<Rightarrow> bool" where
  "truthy Undefined = False"
| "truthy Null = False"
| "truthy (Bool b) = b"
| "truthy (Num n) = (n \<noteq> 0)"
| "truthy (Str s) = (s \<noteq> [])"
| "truthy (Arr xs) = True"
| "truthy (Obj kvs) = True"

text \<open>An optional string parameter: unset is \<^verbatim>\<open>undefined\<close>.\<close>

fun opt_str :: "string option \<Rightarrow> jsval" where
  "opt_str None = Undefined"
| "opt_str (Some s) = Str s"

text \<open>
  Reading a property \<^verbatim>\<open>v.name\<close>. On \<^verbatim>\<open>undefined\<close> and \<^verbatim>\<open>null\<close> the read throws; on an
  object it yields the property or \<^verbatim>\<open>undefined\<close>. The names this client reads
  (\<^verbatim>\<open>calls\<close>, \<^verbatim>\<open>records\<close>, \<^verbatim>\<open>cursor\<close>, ...) are no members of a primitive or of an array,
  so the read yields \<^verbatim>\<open>undefined\<close> there.
\<close>

fun get_prop :: "jsval \<Rightarrow> string \<Rightarrow> js_error + jsval" where
  "get_prop Undefined name = Inl (TypeError name)"
| "get_prop Null name = Inl (TypeError name)"
| "get_prop (Obj kvs) name = Inr (case map_of kvs name of None \<Rightarrow> Undefined | Some v \<Rightarrow> v)"
| "get_prop v name = Inr Undefined"

text \<open>Optional chaining \<^verbatim>\<open>v?.name\<close>: \<^verbatim>\<open>undefined\<close> when \<open>v\<close> is nullish.\<close>

fun get_prop_opt :: "jsval \<Rightarrow> string \<Rightarrow> js_error + jsval" where
  "get_prop_opt Undefined name = Inr Undefined"
| "get_prop_opt Null name = Inr Undefined"
| "get_prop_opt v name = get_prop v name"

text \<open>
  The element read \<^verbatim>\<open>v[0]\<close>: the first element of an array, the first character of a
  (here ASCII) string, the property \<^verbatim>\<open>"0"\<close> of an object, \<^verbatim>\<open>undefined\<close> when there is
  none; it throws on \<^verbatim>\<open>undefined\<close> and \<^verbatim>\<open>null\<close>.
\<close>

fun get_index0 :: "jsval \<Rightarrow> js_error + jsval" where
  "get_index0 Undefined = Inl (TypeError ''0'')"
| "get_index0 Null = Inl (TypeError ''0'')"
| "get_index0 (Arr []) = Inr Undefined"
| "get_index0 (Arr (x # xs)) = Inr x"
| "get_index0 (Str []) = Inr Undefined"
| "get_index0 (Str (c # cs)) = Inr (Str [c])"
| "get_index0 (Obj kvs) = Inr (case map_of kvs ''0'' of None \<Rightarrow> Undefined | Some v \<Rightarrow> v)"
| "get_index0 v = Inr Undefined"

section \<open>Text encodings of the platform\<close>

text \<open>A number inside a template literal: its decimal digits.\<close>

definition digit_char :: "nat \<Rightarrow> char" where
  "digit_char d = ''0123456789'' ! d"

fun show_nat :: "nat \<Rightarrow> string" where
  "show_nat n = (if n < 10 then [digit_char n] else show_nat (n div 10) @ [digit_char (n mod 10)])"

declare show_nat.simps [simp del]

text \<open>\<^verbatim>\<open>Buffer.from(text).toString("base64")\<close>: RFC 4648 base64 of the UTF-8 bytes.\<close>

definition b64_char :: "nat \<Rightarrow> char" where
  "b64_char i = ''ABCDEFGHIJKLMNOPQRSTUVWXYZabcdefghijklmnopqrstuvwxyz0123456789+/'' ! i"

fun base64 :: "string \<Rightarrow> string" where
  "base64 [] = []"
| "base64 [a] =
     (let x = (of_char a :: nat)
      in [b64_char (x div 4), b64_char ((x mod 4) * 16), CHR ''='', CHR ''=''])"
| "base64 [a, b] =
     (let x = (of_char a :: nat); y = (of_char b :: nat)
      in [b64_char (x div 4), b64_char ((x mod 4) * 16 + y div 16),
          b64_char ((y mod 16) * 4), CHR ''=''])"
| "base64 (a # b # c # rest) =
     (let x = (of_char a :: nat); y = (of_char b :: nat); z = (of_char c :: nat)
      in [b64_char (x div 4), b64_char ((x mod 4) * 16 + y div 16),
          b64_char ((y mod 16) * 4 + z div 64), b64_char (z mod 64)] @ base64 rest)"

text \<open>
  \<^verbatim>\<open>URLSearchParams\<close>: \<^verbatim>\<open>append\<close> adds a pair at the end, \<^verbatim>\<open>toString\<close> is the
  \<^verbatim>\<open>application/x-www-form-urlencoded\<close> serialisation: \<^verbatim>\<open>name=value\<close> joined by
  \<^verbatim>\<open>&\<close>, a space as \<^verbatim>\<open>+\<close>, every byte outside \<^verbatim>\<open>*-._\<close>, digits and letters as
  \<^verbatim>\<open>%XX\<close>.
\<close>

definition hex_char :: "nat \<Rightarrow> char" where
  "hex_char d = ''0123456789ABCDEF'' ! d"

definition form_safe :: "char \<Rightarrow> bool" where
  "form_safe c \<longleftrightarrow>
     c \<in> set ''*-._0123456789ABCDEFGHIJKLMNOPQRSTUVWXYZabcdefghijklmnopqrstuvwxyz''"

definition form_encode_char :: "char \<Rightarrow> string" where
  "form_encode_char c =
     (if c = CHR '' '' then ''+''
      else if form_safe c then [c]
      else [CHR ''%'', hex_char (of_char c div 16), hex_char (of_char c mod 16)])"

definition form_encode :: "string \<Rightarrow> string" where
  "form_encode s = concat (map form_encode_char s)"

fun join_amp :: "string list \<Rightarrow> string" where
  "join_amp [] = []"
| "join_amp [p] = p"
| "join_amp (p # q # ps) = p @ ''&'' @ join_amp (q # ps)"

definition URLSearchParams_toString :: "(string \<times> string) list \<Rightarrow> string" where
  "URLSearchParams_toString qs =
     join_amp (map (\<lambda>(k, v). form_encode k @ ''='' @ form_encode v) qs)"

text \<open>\<^verbatim>\<open>if (value) queryParams.append(name, value)\<close> for an optional string.\<close>

definition append_if_set :: "string \<Rightarrow> string option \<Rightarrow> (string \<times> string) list \<Rightarrow> (string \<times> string) list" where
  "append_if_set name value qs =
     (case value of None \<Rightarrow> qs
      | Some v \<Rightarrow> if truthy (Str v) then qs @ [(name, v)] else qs)"

section \<open>The transport\<close>

datatype http_method = GET | POST

record http_request =
  url :: string
  http_method :: http_method
  headers :: "(string \<times> string) list"
  body :: "json option"

text \<open>
  A response of the upstream: its status, the text of its body (\<^verbatim>\<open>response.text()\<close>)
  and the document that text decodes to (\<^verbatim>\<open>response.json()\<close>; \<open>None\<close> when it is
  no JSON).
\<close>

record http_response =
  status :: nat
  body_text :: string
  body_json :: "json option"

definition ok :: "http_response \<Rightarrow> bool" where
  "ok r \<longleftrightarrow> 200 \<le> status r \<and> status r \<le> 299"

text \<open>\<^verbatim>\<open>fetch\<close>: one exchange; the upstream answers, or the exchange fails.\<close>

type_synonym upstream = "http_request \<Rightarrow> js_error + http_response"

section \<open>The client\<close>

definition GONG_API_BASE :: string where
  "GONG_API_BASE = ''https://api.gong.io/v2''"

record GongConfig =
  accessKey :: string
  accessKeySecret :: string

record GongClient =
  authHeader :: string

record PaginatedResponse =
  records :: jsval
  cursor :: jsval
  totalRecords :: jsval

text \<open>
  What one call of a method leaves behind: the client object after the call, the
  exchanges it made with the upstream, in order, and the value it resolved to or the
  error it threw.
\<close>

record 'a run =
  this_after :: GongClient
  exchanges :: "http_request list"
  outcome :: "js_error + 'a"

definition constructor :: "GongConfig \<Rightarrow> GongClient" where
  "constructor config =
     (let credentials = base64 (accessKey config @ '':'' @ accessKeySecret config)
      in \<lparr>authHeader = ''Basic '' @ credentials\<rparr>)"

text \<open>The request that \<^verbatim>\<open>fetch(url, {method, headers, body})\<close> is called with.\<close>

definition request_of :: "GongClient \<Rightarrow> string \<Rightarrow> http_method \<Rightarrow> jsval \<Rightarrow> http_request" where
  "request_of this endpoint method body_arg =
     \<lparr>url = GONG_API_BASE @ endpoint,
      http_method = method,
      headers = [(''Authorization'', authHeader this),
                 (''Content-Type'', ''application/json'')],
      body = (if truthy body_arg then JSON_stringify body_arg else None)\<rparr>"

text \<open>The message of the error thrown on a status outside 200..299.\<close>

definition error_message :: "http_response \<Rightarrow> string" where
  "error_message response =
     ''Gong API error ('' @ show_nat (status response) @ ''): '' @ body_text response"

definition request :: "upstream \<Rightarrow> GongClient \<Rightarrow> string \<Rightarrow> http_method \<Rightarrow> jsval \<Rightarrow> jsval run" where
  "request fetch this endpoint method body_arg =
     (let req = request_of this endpoint method body_arg
      in case fetch req of
           Inl e \<Rightarrow> \<lparr>this_after = this, exchanges = [req], outcome = Inl e\<rparr>
         | Inr response \<Rightarrow>
             if \<not> ok response
             then \<lparr>this_after = this, exchanges = [req],
                   outcome = Inl (Error (error_message response))\<rparr>
             else (case body_json response of
                     None \<Rightarrow> \<lparr>this_after = this, exchanges = [req], outcome = Inl SyntaxError\<rparr>
                   | Some j \<Rightarrow> \<lparr>this_after = this, exchanges = [req], outcome = Inr (of_json j)\<rparr>))"

text \<open>
  The rest of a method after \<^verbatim>\<open>await this.request(...)\<close>: it runs on the decoded
  response, makes no further exchange, and an error of the request passes through.
\<close>

definition after :: "jsval run \<Rightarrow> (jsval \<Rightarrow> js_error + 'a) \<Rightarrow> 'a run" where
  "after r k =
     \<lparr>this_after = this_after r, exchanges = exchanges r,
      outcome = (case outcome r of Inl e \<Rightarrow> Inl e | Inr response \<Rightarrow> k response)\<rparr>"

text \<open>Sequencing of reads that may throw.\<close>

definition bind_err :: "js_error + 'a \<Rightarrow> ('a \<Rightarrow> js_error + 'b) \<Rightarrow> js_error + 'b" where
  "bind_err m k = (case m of Inl e \<Rightarrow> Inl e | Inr v \<Rightarrow> k v)"

definition with_query :: "string \<Rightarrow> (string \<times> string) list \<Rightarrow> string" where
  "with_query path queryParams =
     path @ (if truthy (Str (URLSearchParams_toString queryParams))
             then ''?'' @ URLSearchParams_toString queryParams else '''')"

subsection \<open>Calls\<close>

definition listCalls ::
  "upstream \<Rightarrow> GongClient \<Rightarrow> string option \<Rightarrow> string option \<Rightarrow> string option \<Rightarrow> string option
     \<Rightarrow> PaginatedResponse run" where
  "listCalls fetch this fromDateTime toDateTime workspaceId cursor_arg =
     (let queryParams =
            append_if_set ''cursor'' cursor_arg
              (append_if_set ''workspaceId'' workspaceId
                (append_if_set ''toDateTime'' toDateTime
                  (append_if_set ''fromDateTime'' fromDateTime [])));
          endpoint = with_query ''/calls'' queryParams
      in after (request fetch this endpoint GET Undefined) (\<lambda>response.
           bind_err (get_prop response ''calls'') (\<lambda>calls.
           bind_err (get_prop response ''records'') (\<lambda>meta.
           bind_err (get_prop meta ''cursor'') (\<lambda>c.
           bind_err (get_prop response ''records'') (\<lambda>meta'.
           bind_err (get_prop meta' ''totalRecords'') (\<lambda>t.
           Inr \<lparr>records = calls, cursor = c, totalRecords = t\<rparr>)))))))"

definition getCallsExtensive :: "upstream \<Rightarrow> GongClient \<Rightarrow> string list \<Rightarrow> jsval run" where
  "getCallsExtensive fetch this callIds =
     after (request fetch this ''/calls/extensive'' POST
              (Obj [(''filter'', Obj [(''callIds'', Arr (map Str callIds))]),
                    (''contentSelector'',
                       Obj [(''context'', Str ''Extended''),
                            (''exposedFields'',
                               Obj [(''parties'', Bool True),
                                    (''content'', Obj [(''trackers'', Bool True),
                                                       (''topics'', Bool True),
                                                       (''pointsOfInterest'', Bool True)]),
                                    (''collaboration'', Obj [(''publicComments'', Bool True)])])])]))
       (\<lambda>response. get_prop response ''calls'')"

definition getTranscript :: "upstream \<Rightarrow> GongClient \<Rightarrow> string \<Rightarrow> jsval run" where
  "getTranscript fetch this callId =
     after (request fetch this ''/calls/transcript'' POST
              (Obj [(''filter'', Obj [(''callIds'', Arr [Str callId])])]))
       (\<lambda>response. bind_err (get_prop response ''callTranscripts'') get_index0)"

definition searchCalls ::
  "upstream \<Rightarrow> GongClient \<Rightarrow> string option \<Rightarrow> string option \<Rightarrow> string option
     \<Rightarrow> string list option \<Rightarrow> string option \<Rightarrow> PaginatedResponse run" where
  "searchCalls fetch this searchTerm fromDateTime toDateTime primaryUserIds cursor_arg =
     listCalls fetch this fromDateTime toDateTime None cursor_arg"

subsection \<open>Users\<close>

definition listUsers :: "upstream \<Rightarrow> GongClient \<Rightarrow> string option \<Rightarrow> PaginatedResponse run" where
  "listUsers fetch this cursor_arg =
     (let queryParams = append_if_set ''cursor'' cursor_arg [];
          endpoint = with_query ''/users'' queryParams
      in after (request fetch this endpoint GET Undefined) (\<lambda>response.
           bind_err (get_prop response ''users'') (\<lambda>users.
           bind_err (get_prop response ''records'') (\<lambda>meta.
           bind_err (get_prop meta ''cursor'') (\<lambda>c.
           bind_err (get_prop response ''records'') (\<lambda>meta'.
           bind_err (get_prop meta' ''totalRecords'') (\<lambda>t.
           Inr \<lparr>records = users, cursor = c, totalRecords = t\<rparr>)))))))"

definition getUsers :: "upstream \<Rightarrow> GongClient \<Rightarrow> string list \<Rightarrow> jsval run" where
  "getUsers fetch this userIds =
     after (request fetch this ''/users/extensive'' POST
              (Obj [(''filter'', Obj [(''userIds'', Arr (map Str userIds))])]))
       (\<lambda>response. get_prop response ''users'')"

subsection \<open>CRM and deals\<close>

datatype crm_object_type = Account | Deal | Lead | Contact

fun crm_object_type_text :: "crm_object_type \<Rightarrow> string" where
  "crm_object_type_text Account = ''Account''"
| "crm_object_type_text Deal = ''Deal''"
| "crm_object_type_text Lead = ''Lead''"
| "crm_object_type_text Contact = ''Contact''"

definition getCallsByCrmObject ::
  "upstream \<Rightarrow> GongClient \<Rightarrow> crm_object_type \<Rightarrow> string list \<Rightarrow> string option \<Rightarrow> string option
     \<Rightarrow> jsval run" where
  "getCallsByCrmObject fetch this objectType objectIds fromDateTime toDateTime =
     after (request fetch this ''/crm/object/calls'' POST
              (Obj [(''filter'', Obj [(''objectType'', Str (crm_object_type_text objectType)),
                                      (''objectIds'', Arr (map Str objectIds)),
                                      (''fromDateTime'', opt_str fromDateTime),
                                      (''toDateTime'', opt_str toDateTime)])]))
       (\<lambda>response. get_prop response ''crmCallsLinks'')"

text \<open>
  The body of the two paginated POST listings, and the way both fold the envelope:
  \<^verbatim>\<open>response.<field> || []\<close>, \<^verbatim>\<open>response.records?.cursor\<close>,
  \<^verbatim>\<open>response.records?.totalRecords\<close>.
\<close>

definition filter_body :: "string option \<Rightarrow> string option \<Rightarrow> string option \<Rightarrow> jsval" where
  "filter_body fromDateTime toDateTime cursor_arg =
     Obj [(''filter'', Obj [(''fromDateTime'', opt_str fromDateTime),
                            (''toDateTime'', opt_str toDateTime)]),
          (''cursor'', opt_str cursor_arg)]"

definition or_empty :: "jsval \<Rightarrow> jsval" where
  "or_empty v = (if truthy v then v else Arr [])"

definition listDeals ::
  "upstream \<Rightarrow> GongClient \<Rightarrow> string option \<Rightarrow> string option \<Rightarrow> string option
     \<Rightarrow> PaginatedResponse run" where
  "listDeals fetch this fromDateTime toDateTime cursor_arg =
     after (request fetch this ''/crm/deals'' POST (filter_body fromDateTime toDateTime cursor_arg))
       (\<lambda>response.
           bind_err (get_prop response ''deals'') (\<lambda>deals.
           bind_err (get_prop response ''records'') (\<lambda>meta.
           bind_err (get_prop_opt meta ''cursor'') (\<lambda>c.
           bind_err (get_prop response ''records'') (\<lambda>meta'.
           bind_err (get_prop_opt meta' ''totalRecords'') (\<lambda>t.
           Inr \<lparr>records = or_empty deals, cursor = c, totalRecords = t\<rparr>))))))"

subsection \<open>Emails\<close>

definition listEmails ::
  "upstream \<Rightarrow> GongClient \<Rightarrow> string option \<Rightarrow> string option \<Rightarrow> string option
     \<Rightarrow> PaginatedResponse run" where
  "listEmails fetch this fromDateTime toDateTime cursor_arg =
     after (request fetch this ''/emails'' POST (filter_body fromDateTime toDateTime cursor_arg))
       (\<lambda>response.
           bind_err (get_prop response ''emailActivities'') (\<lambda>emailActivities.
           bind_err (get_prop response ''records'') (\<lambda>meta.
           bind_err (get_prop_opt meta ''cursor'') (\<lambda>c.
           bind_err (get_prop response ''records'') (\<lambda>meta'.
           bind_err (get_prop_opt meta' ''totalRecords'') (\<lambda>t.
           Inr \<lparr>records = or_empty emailActivities, cursor = c, totalRecords = t\<rparr>))))))"

subsection \<open>Stats and library\<close>

fun opt_str_list :: "string list option \<Rightarrow> jsval" where
  "opt_str_list None = Undefined"
| "opt_str_list (Some xs) = Arr (map Str xs)"

definition getUserStats ::
  "upstream \<Rightarrow> GongClient \<Rightarrow> string \<Rightarrow> string \<Rightarrow> string list option \<Rightarrow> jsval run" where
  "getUserStats fetch this fromDate toDate userIds =
     after (request fetch this ''/stats/activity/aggregate'' POST
              (Obj [(''filter'', Obj [(''fromDate'', Str fromDate),
                                      (''toDate'', Str toDate),
                                      (''userIds'', opt_str_list userIds)])]))
       (\<lambda>response. get_prop response ''usersStats'')"

definition listLibraryFolders :: "upstream \<Rightarrow> GongClient \<Rightarrow> jsval run" where
  "listLibraryFolders fetch this =
     after (request fetch this ''/library/folders'' GET Undefined)
       (\<lambda>response. get_prop response ''libraryFolders'')"

section \<open>Reading a request back\<close>

text \<open>
  The names a query string carries, as the receiving side reads them: the text after
  the first \<^verbatim>\<open>?\<close>, cut at every \<^verbatim>\<open>&\<close>, each piece up to its \<^verbatim>\<open>=\<close>.
\<close>

fun split_on :: "char \<Rightarrow> string \<Rightarrow> string list" where
  "split_on c [] = [[]]"
| "split_on c (x # xs) =
     (if x = c then [] # split_on c xs
      else (case split_on c xs of [] \<Rightarrow> [[x]] | p # ps \<Rightarrow> (x # p) # ps))"

definition query_of :: "string \<Rightarrow> string option" where
  "query_of u = (if CHR ''?'' \<in> set u then Some (tl (dropWhile (\<lambda>c. c \<noteq> CHR ''?'') u)) else None)"

definition query_names :: "string \<Rightarrow> string list" where
  "query_names u =
     (case query_of u of None \<Rightarrow> []
      | Some q \<Rightarrow> map (takeWhile (\<lambda>c. c \<noteq> CHR ''='')) (split_on (CHR ''&'') q))"

text \<open>The keys of a JSON object, and the member of an object under a key.\<close>

fun json_keys :: "json \<Rightarrow> string list" where
  "json_keys (JObj kvs) = map fst kvs"
| "json_keys j = []"

fun json_member :: "json \<Rightarrow> string \<Rightarrow> json option" where
  "json_member (JObj kvs) k = map_of kvs k"
| "json_member j k = None"

section \<open>Observing a call\<close>

text \<open>An upstream that gives the same response to every request.\<close>

definition always :: "http_response \<Rightarrow> upstream" where
  "always response = (\<lambda>req. Inr response)"

text \<open>The call made one exchange, and the upstream answered it with this response.\<close>

definition answered :: "upstream \<Rightarrow> 'a run \<Rightarrow> http_response \<Rightarrow> bool" where
  "answered fetch r response \<longleftrightarrow> (\<exists>req. exchanges r = [req] \<and> fetch req = Inr response)"

text \<open>
  The call made one exchange, and the upstream answered it with a status in 200..299 and
  a body that decodes to this document.
\<close>

definition delivered :: "upstream \<Rightarrow> 'a run \<Rightarrow> json \<Rightarrow> bool" where
  "delivered fetch r j \<longleftrightarrow>
     (\<exists>response. answered fetch r response \<and> ok response \<and> body_json response = Some j)"

text \<open>The value under a name of a decoded envelope, \<^verbatim>\<open>undefined\<close> when it has none.\<close>

definition envelope_field :: "(string \<times> json) list \<Rightarrow> string \<Rightarrow> jsval" where
  "envelope_field env name = (case map_of env name of None \<Rightarrow> Undefined | Some j \<Rightarrow> of_json j)"

text \<open>
  What went out during a call: the parameter names in the query strings, the keys of
  the bodies, the keys of the bodies' \<^verbatim>\<open>filter\<close> objects, the authorization headers.
\<close>

definition sent_query_names :: "'a run \<Rightarrow> string list" where
  "sent_query_names r = concat (map (\<lambda>req. query_names (url req)) (exchanges r))"

definition sent_body_keys :: "'a run \<Rightarrow> string list" where
  "sent_body_keys r =
     concat (map (\<lambda>req. case body req of None \<Rightarrow> [] | Some b \<Rightarrow> json_keys b) (exchanges r))"

definition sent_filter_keys :: "'a run \<Rightarrow> string list" where
  "sent_filter_keys r =
     concat (map (\<lambda>req. case body req of None \<Rightarrow> []
                         | Some b \<Rightarrow> (case json_member b ''filter'' of None \<Rightarrow> []
                                       | Some f \<Rightarrow> json_keys f)) (exchanges r))"

definition sent_authorization :: "'a run \<Rightarrow> string option list" where
  "sent_authorization r = map (\<lambda>req. map_of (headers req) ''Authorization'') (exchanges r)"

text \<open>One pair of a query string, as \<^verbatim>\<open>toString\<close> writes it.\<close>

definition pair_text :: "string \<times> string \<Rightarrow> string" where
  "pair_text kv = form_encode (fst kv) @ ''='' @ form_encode (snd kv)"

section \<open>Example exchanges\<close>

definition example_client :: GongClient where
  "example_client = constructor \<lparr>accessKey = ''k'', accessKeySecret = ''s''\<rparr>"

text \<open>A success envelope that carries neither a resource array nor the metadata object.\<close>

definition bare_envelope :: "(string \<times> json) list" where
  "bare_envelope = [(''requestId'', JStr ''r1'')]"

definition bare_response :: http_response where
  \<open>bare_response = \<lparr>status = 200, body_text = ''{"requestId":"r1"}'',
                      body_json = Some (JObj bare_envelope)\<rparr>\<close>

text \<open>A success envelope with the metadata object and no resource array.\<close>

definition example_metadata :: "(string \<times> json) list" where
  "example_metadata =
     [(''totalRecords'', JNum 263), (''currentPageSize'', JNum 100),
      (''cursor'', JStr ''eyJwIjoyfQ'')]"

definition metadata_only_envelope :: "(string \<times> json) list" where
  "metadata_only_envelope =
     [(''requestId'', JStr ''r1''), (''records'', JObj example_metadata)]"

definition metadata_only_response :: http_response where
  \<open>metadata_only_response =
     \<lparr>status = 200,
      body_text = ''{"requestId":"r1","records":{"totalRecords":263,"currentPageSize":100,"cursor":"eyJwIjoyfQ"}}'',
      body_json = Some (JObj metadata_only_envelope)\<rparr>\<close>

text \<open>A success envelope with an empty \<^verbatim>\<open>calls\<close> array and no metadata object.\<close>

definition calls_only_envelope :: "(string \<times> json) list" where
  "calls_only_envelope = [(''requestId'', JStr ''r1''), (''calls'', JArr [])]"

definition calls_only_response :: http_response where
  \<open>calls_only_response =
     \<lparr>status = 200, body_text = ''{"requestId":"r1","calls":[]}'',
      body_json = Some (JObj calls_only_envelope)\<rparr>\<close>

text \<open>A success envelope with an empty transcript array.\<close>

definition no_transcript_envelope :: "(string \<times> json) list" where
  "no_transcript_envelope = [(''requestId'', JStr ''r1''), (''callTranscripts'', JArr [])]"

definition no_transcript_response :: http_response where
  \<open>no_transcript_response =
     \<lparr>status = 200, body_text = ''{"requestId":"r1","callTranscripts":[]}'',
      body_json = Some (JObj no_transcript_envelope)\<rparr>\<close>

text \<open>A refusal: status 429, body \<^verbatim>\<open>rate limited\<close>.\<close>

definition rate_limited_response :: http_response where
  "rate_limited_response = \<lparr>status = 429, body_text = ''rate limited'', body_json = None\<rparr>"

text \<open>A last page: the metadata object is there and holds no cursor.\<close>

definition last_page_metadata :: "(string \<times> json) list" where
  "last_page_metadata = [(''totalRecords'', JNum 263), (''currentPageSize'', JNum 63)]"

definition last_page_envelope :: "(string \<times> json) list" where
  "last_page_envelope =
     [(''requestId'', JStr ''r2''), (''records'', JObj last_page_metadata),
      (''calls'', JArr []), (''deals'', JArr [])]"

definition last_page_response :: http_response where
  \<open>last_page_response =
     \<lparr>status = 200,
      body_text = ''{"requestId":"r2","records":{"totalRecords":263,"currentPageSize":63},"calls":[],"deals":[]}'',
      body_json = Some (JObj last_page_envelope)\<rparr>\<close>

text \<open>A success envelope that carries every array the lookups without pagination read.\<close>

definition arrays_envelope :: "(string \<times> json) list" where
  "arrays_envelope =
     [(''requestId'', JStr ''r3''),
      (''crmCallsLinks'', JArr [JObj [(''objectId'', JStr ''d1''),
                                      (''calls'', JArr [JObj [(''callId'', JStr ''call-1'')]])]]),
      (''calls'', JArr [JObj [(''id'', JStr ''call-1'')]]),
      (''users'', JArr [JObj [(''id'', JStr ''u1'')]]),
      (''usersStats'', JArr [JObj [(''userId'', JStr ''u1'')]]),
      (''libraryFolders'', JArr [JObj [(''id'', JStr ''f1''), (''name'', JStr ''Wins'')]])]"

definition arrays_response :: http_response where
  \<open>arrays_response =
     \<lparr>status = 200,
      body_text = ''{"requestId":"r3","crmCallsLinks":[{"objectId":"d1","calls":[{"callId":"call-1"}]}],"calls":[{"id":"call-1"}],"users":[{"id":"u1"}],"usersStats":[{"userId":"u1"}],"libraryFolders":[{"id":"f1","name":"Wins"}]}'',
      body_json = Some (JObj arrays_envelope)\<rparr>\<close>

section \<open>Properties\<close>

subsection \<open>Query strings\<close>

lemma hex_char_mem: "d < 16 \<Longrightarrow> hex_char d \<in> set ''0123456789ABCDEF''"
  unfolding hex_char_def by (rule nth_mem) simp

lemma hex_char_not_sep: "d < 16 \<Longrightarrow> hex_char d \<notin> {CHR ''&'', CHR ''='', CHR ''?''}"
  using hex_char_mem [of d] by auto

lemma of_char_less_256: "(of_char c :: nat) < 256"
proof -
  have "(of_char c :: nat) mod 256 < 256" by simp
  then show ?thesis by (simp only: of_char_mod_256)
qed

lemma form_encode_char_no_sep:
  "x \<in> set (form_encode_char c) \<Longrightarrow> x \<notin> {CHR ''&'', CHR ''='', CHR ''?''}"
proof -
  assume x: "x \<in> set (form_encode_char c)"
  have hi: "(of_char c :: nat) div 16 < 16"
    using of_char_less_256 [of c] by arith
  have lo: "(of_char c :: nat) mod 16 < 16" by simp
  show ?thesis
    using x hex_char_not_sep [OF hi] hex_char_not_sep [OF lo]
    by (auto simp: form_encode_char_def form_safe_def split: if_splits)
qed

lemma form_encode_no_sep:
  "x \<in> set (form_encode s) \<Longrightarrow> x \<notin> {CHR ''&'', CHR ''='', CHR ''?''}"
  unfolding form_encode_def using form_encode_char_no_sep by auto

lemma split_on_no_sep: "c \<notin> set p \<Longrightarrow> split_on c p = [p]"
  by (induction p) auto

lemma split_on_append_sep:
  "c \<notin> set p \<Longrightarrow> split_on c (p @ c # rest) = p # split_on c rest"
  by (induction p) auto

lemma split_on_join_amp:
  "ps \<noteq> [] \<Longrightarrow> \<forall>p \<in> set ps. CHR ''&'' \<notin> set p \<Longrightarrow> split_on (CHR ''&'') (join_amp ps) = ps"
proof (induction ps rule: join_amp.induct)
  case 1
  then show ?case by simp
next
  case (2 p)
  then show ?case by (simp add: split_on_no_sep)
next
  case (3 p q ps)
  then show ?case by (simp add: split_on_append_sep)
qed

lemma join_amp_empty: "join_amp ps = [] \<longleftrightarrow> (ps = [] \<or> ps = [[]])"
  by (induction ps rule: join_amp.induct) auto

lemma toString_pair_text: "URLSearchParams_toString qs = join_amp (map pair_text qs)"
  unfolding URLSearchParams_toString_def pair_text_def by (simp add: case_prod_unfold)

lemma pair_text_no_amp: "CHR ''&'' \<notin> set (pair_text kv)"
  using form_encode_no_sep [of "CHR ''&''"] unfolding pair_text_def by auto

lemma pair_text_name: "takeWhile (\<lambda>c. c \<noteq> CHR ''='') (pair_text kv) = form_encode (fst kv)"
proof -
  have "\<forall>x \<in> set (form_encode (fst kv)). x \<noteq> CHR ''=''"
    using form_encode_no_sep by auto
  then show ?thesis
    unfolding pair_text_def by (simp add: takeWhile_append2 takeWhile_tail)
qed

lemma toString_empty: "URLSearchParams_toString qs = [] \<longleftrightarrow> qs = []"
  unfolding toString_pair_text join_amp_empty by (auto simp: pair_text_def)

lemma query_names_with_query:
  assumes "CHR ''?'' \<notin> set base"
  shows "query_names (base @ with_query [] qs) = map (\<lambda>kv. form_encode (fst kv)) qs"
proof (cases "qs = []")
  case True
  then show ?thesis
    using assms by (simp add: with_query_def URLSearchParams_toString_def query_names_def query_of_def)
next
  case False
  then have ne: "URLSearchParams_toString qs \<noteq> []" by (simp add: toString_empty)
  have drop: "dropWhile (\<lambda>c. c \<noteq> CHR ''?'') (base @ ''?'' @ URLSearchParams_toString qs)
                = ''?'' @ URLSearchParams_toString qs"
  proof -
    have "\<forall>x \<in> set base. x \<noteq> CHR ''?''" using assms by auto
    then show ?thesis by (simp add: dropWhile_append2)
  qed
  have split: "split_on (CHR ''&'') (URLSearchParams_toString qs) = map pair_text qs"
    unfolding toString_pair_text
    using False by (intro split_on_join_amp) (auto simp: pair_text_no_amp)
  show ?thesis
    using ne drop split
    by (simp add: with_query_def query_names_def query_of_def pair_text_name)
qed

subsection \<open>The request primitive\<close>

lemma request_exchanges:
  "exchanges (request fetch this endpoint method b) = [request_of this endpoint method b]"
  by (simp add: request_def Let_def split: sum.splits option.splits)

lemma request_this_after: "this_after (request fetch this endpoint method b) = this"
  by (simp add: request_def Let_def split: sum.splits option.splits)

lemma request_outcome_refused:
  "fetch (request_of this endpoint method b) = Inr response \<Longrightarrow> \<not> ok response \<Longrightarrow>
   outcome (request fetch this endpoint method b) = Inl (Error (error_message response))"
  by (simp add: request_def Let_def)

lemma request_outcome_decoded:
  "fetch (request_of this endpoint method b) = Inr response \<Longrightarrow> ok response \<Longrightarrow>
   body_json response = Some j \<Longrightarrow>
   outcome (request fetch this endpoint method b) = Inr (of_json j)"
  by (simp add: request_def Let_def)

lemma after_exchanges: "exchanges (after r k) = exchanges r"
  by (simp add: after_def)

lemma after_this_after: "this_after (after r k) = this_after r"
  by (simp add: after_def)

lemma after_outcome:
  "outcome (after r k) = (case outcome r of Inl e \<Rightarrow> Inl e | Inr response \<Rightarrow> k response)"
  by (simp add: after_def)

lemma after_request_answered:
  "answered fetch (after (request fetch this endpoint method b) k) response \<longleftrightarrow>
   fetch (request_of this endpoint method b) = Inr response"
  by (simp add: answered_def after_exchanges request_exchanges)

lemma after_request_refused:
  "answered fetch (after (request fetch this endpoint method b) k) response \<Longrightarrow> \<not> ok response \<Longrightarrow>
   outcome (after (request fetch this endpoint method b) k) = Inl (Error (error_message response))"
  unfolding after_request_answered by (simp add: after_outcome request_outcome_refused)

lemma after_request_decoded:
  "answered fetch (after (request fetch this endpoint method b) k) response \<Longrightarrow> ok response \<Longrightarrow>
   body_json response = Some j \<Longrightarrow>
   outcome (after (request fetch this endpoint method b) k) = k (of_json j)"
  unfolding after_request_answered by (simp add: after_outcome request_outcome_decoded)

lemma map_of_of_json_props:
  "map_of (of_json_props env) name = map_option of_json (map_of env name)"
  by (induction env) auto

lemma get_prop_envelope:
  "get_prop (of_json (JObj env)) name = Inr (envelope_field env name)"
  by (simp add: envelope_field_def map_of_of_json_props split: option.splits)

lemma after_request_delivered:
  assumes "delivered fetch (after (request fetch this endpoint method b) k) j"
  shows "outcome (after (request fetch this endpoint method b) k) = k (of_json j)"
proof -
  from assms obtain response
    where "answered fetch (after (request fetch this endpoint method b) k) response"
      and "ok response" and "body_json response = Some j"
    unfolding delivered_def by blast
  then show ?thesis by (rule after_request_decoded)
qed

lemma get_prop_opt_total: "\<exists>x. get_prop_opt v name = Inr x"
  by (cases v) auto

lemma get_prop_object:
  "get_prop (of_json (JObj meta)) name = Inr (envelope_field meta name)"
  by (rule get_prop_envelope)

lemma get_prop_opt_object:
  "get_prop_opt (of_json (JObj meta)) name = Inr (envelope_field meta name)"
  by (simp add: envelope_field_def map_of_of_json_props split: option.splits)

lemma envelope_field_Some: "map_of env name = Some j \<Longrightarrow> envelope_field env name = of_json j"
  by (simp add: envelope_field_def)

lemma envelope_field_None: "map_of env name = None \<Longrightarrow> envelope_field env name = Undefined"
  by (simp add: envelope_field_def)

subsection \<open>What each listing method resolves to on a delivered envelope\<close>

lemma listCalls_delivered:
  assumes "delivered fetch (listCalls fetch this f t w c) (JObj env)"
  shows "outcome (listCalls fetch this f t w c) =
           bind_err (get_prop (envelope_field env ''records'') ''cursor'') (\<lambda>cur.
           bind_err (get_prop (envelope_field env ''records'') ''totalRecords'') (\<lambda>tot.
           Inr \<lparr>records = envelope_field env ''calls'', cursor = cur, totalRecords = tot\<rparr>))"
  using assms unfolding listCalls_def Let_def
  by (simp only: after_request_delivered get_prop_envelope) (simp add: bind_err_def)

lemma listUsers_delivered:
  assumes "delivered fetch (listUsers fetch this c) (JObj env)"
  shows "outcome (listUsers fetch this c) =
           bind_err (get_prop (envelope_field env ''records'') ''cursor'') (\<lambda>cur.
           bind_err (get_prop (envelope_field env ''records'') ''totalRecords'') (\<lambda>tot.
           Inr \<lparr>records = envelope_field env ''users'', cursor = cur, totalRecords = tot\<rparr>))"
  using assms unfolding listUsers_def Let_def
  by (simp only: after_request_delivered get_prop_envelope) (simp add: bind_err_def)

lemma listDeals_delivered:
  assumes "delivered fetch (listDeals fetch this f t c) (JObj env)"
  shows "outcome (listDeals fetch this f t c) =
           bind_err (get_prop_opt (envelope_field env ''records'') ''cursor'') (\<lambda>cur.
           bind_err (get_prop_opt (envelope_field env ''records'') ''totalRecords'') (\<lambda>tot.
           Inr \<lparr>records = or_empty (envelope_field env ''deals''), cursor = cur, totalRecords = tot\<rparr>))"
  using assms unfolding listDeals_def
  by (simp only: after_request_delivered get_prop_envelope) (simp add: bind_err_def)

lemma listEmails_delivered:
  assumes "delivered fetch (listEmails fetch this f t c) (JObj env)"
  shows "outcome (listEmails fetch this f t c) =
           bind_err (get_prop_opt (envelope_field env ''records'') ''cursor'') (\<lambda>cur.
           bind_err (get_prop_opt (envelope_field env ''records'') ''totalRecords'') (\<lambda>tot.
           Inr \<lparr>records = or_empty (envelope_field env ''emailActivities''), cursor = cur,
                totalRecords = tot\<rparr>))"
  using assms unfolding listEmails_def
  by (simp only: after_request_delivered get_prop_envelope) (simp add: bind_err_def)

lemma paginated_fold_total:
  "\<exists>cur tot.
     bind_err (get_prop_opt m ''cursor'') (\<lambda>cur.
     bind_err (get_prop_opt m ''totalRecords'') (\<lambda>tot.
     Inr \<lparr>records = r, cursor = cur, totalRecords = tot\<rparr>))
       = Inr \<lparr>records = r, cursor = cur, totalRecords = tot\<rparr>"
proof -
  obtain x where x: "get_prop_opt m ''cursor'' = Inr x" using get_prop_opt_total by blast
  obtain y where y: "get_prop_opt m ''totalRecords'' = Inr y" using get_prop_opt_total by blast
  show ?thesis by (simp add: x y bind_err_def)
qed

lemmas method_defs =
  listCalls_def getCallsExtensive_def getTranscript_def searchCalls_def listUsers_def
  getUsers_def getCallsByCrmObject_def listDeals_def listEmails_def getUserStats_def
  listLibraryFolders_def

subsection \<open>Folding the envelope\<close>

text \<open>
  Claim C1, as the code has it. \<^verbatim>\<open>listDeals\<close> and \<^verbatim>\<open>listEmails\<close>: when the upstream
  answers with a success envelope that has no \<^verbatim>\<open>deals\<close> (no \<^verbatim>\<open>emailActivities\<close>)
  field, the method does not fail and the \<^verbatim>\<open>records\<close> of its result is the empty
  sequence, whatever else the envelope holds.
\<close>

theorem missing_array_defaults_to_empty:
  "(delivered fetch (listDeals fetch this f t c) (JObj env) \<and> map_of env ''deals'' = None
      \<longrightarrow> (\<exists>cur tot. outcome (listDeals fetch this f t c)
                          = Inr \<lparr>records = Arr [], cursor = cur, totalRecords = tot\<rparr>))
   \<and> (delivered fetch (listEmails fetch this f t c) (JObj env)
        \<and> map_of env ''emailActivities'' = None
      \<longrightarrow> (\<exists>cur tot. outcome (listEmails fetch this f t c)
                          = Inr \<lparr>records = Arr [], cursor = cur, totalRecords = tot\<rparr>))"
proof (intro conjI impI; elim conjE)
  assume d: "delivered fetch (listDeals fetch this f t c) (JObj env)"
    and m: "map_of env ''deals'' = None"
  show "\<exists>cur tot. outcome (listDeals fetch this f t c)
                     = Inr \<lparr>records = Arr [], cursor = cur, totalRecords = tot\<rparr>"
    unfolding listDeals_delivered [OF d] envelope_field_None [OF m]
    using paginated_fold_total [of "envelope_field env ''records''" "Arr []"]
    by (simp add: or_empty_def)
next
  assume d: "delivered fetch (listEmails fetch this f t c) (JObj env)"
    and m: "map_of env ''emailActivities'' = None"
  show "\<exists>cur tot. outcome (listEmails fetch this f t c)
                     = Inr \<lparr>records = Arr [], cursor = cur, totalRecords = tot\<rparr>"
    unfolding listEmails_delivered [OF d] envelope_field_None [OF m]
    using paginated_fold_total [of "envelope_field env ''records''" "Arr []"]
    by (simp add: or_empty_def)
qed

lemma always_delivered:
  "exchanges r = [req] \<Longrightarrow> ok response \<Longrightarrow> body_json response = Some j \<Longrightarrow>
   delivered (always response) r j"
  by (auto simp: delivered_def answered_def always_def)

lemmas exchanges_simps =
  listCalls_def getCallsExtensive_def getTranscript_def searchCalls_def listUsers_def
  getUsers_def getCallsByCrmObject_def listDeals_def listEmails_def getUserStats_def
  listLibraryFolders_def Let_def after_exchanges request_exchanges

theorem missing_array_defaults_to_empty_witness:
  "delivered (always bare_response)
      (listDeals (always bare_response) example_client None None None) (JObj bare_envelope)
   \<and> delivered (always bare_response)
      (listEmails (always bare_response) example_client None None None) (JObj bare_envelope)
   \<and> map_of bare_envelope ''deals'' = None
   \<and> map_of bare_envelope ''emailActivities'' = None
   \<and> (\<exists>cur tot. outcome (listDeals (always bare_response) example_client None None None)
          = Inr \<lparr>records = Arr [], cursor = cur, totalRecords = tot\<rparr>)
   \<and> (\<exists>cur tot. outcome (listEmails (always bare_response) example_client None None None)
          = Inr \<lparr>records = Arr [], cursor = cur, totalRecords = tot\<rparr>)"
proof -
  have d1: "delivered (always bare_response)
      (listDeals (always bare_response) example_client None None None) (JObj bare_envelope)"
    by (rule always_delivered) (simp_all add: exchanges_simps ok_def bare_response_def)
  have d2: "delivered (always bare_response)
      (listEmails (always bare_response) example_client None None None) (JObj bare_envelope)"
    by (rule always_delivered) (simp_all add: exchanges_simps ok_def bare_response_def)
  have m1: "map_of bare_envelope ''deals'' = None" by (simp add: bare_envelope_def)
  have m2: "map_of bare_envelope ''emailActivities'' = None" by (simp add: bare_envelope_def)
  show ?thesis
    using missing_array_defaults_to_empty
      [of "always bare_response" example_client None None None bare_envelope] d1 d2 m1 m2
    by blast
qed

text \<open>
  \<^verbatim>\<open>listCalls\<close> has no such default: on an envelope with the metadata object and no
  \<^verbatim>\<open>calls\<close> field its \<^verbatim>\<open>records\<close> is \<^verbatim>\<open>undefined\<close>.
\<close>

theorem listCalls_missing_array_counterexample:
  "delivered (always metadata_only_response)
      (listCalls (always metadata_only_response) example_client None None None None)
      (JObj metadata_only_envelope)
   \<and> map_of metadata_only_envelope ''calls'' = None
   \<and> outcome (listCalls (always metadata_only_response) example_client None None None None)
       = Inr \<lparr>records = Undefined, cursor = Str ''eyJwIjoyfQ'', totalRecords = Num 263\<rparr>"
proof -
  have d: "delivered (always metadata_only_response)
      (listCalls (always metadata_only_response) example_client None None None None)
      (JObj metadata_only_envelope)"
    by (rule always_delivered) (simp_all add: exchanges_simps ok_def metadata_only_response_def)
  show ?thesis
    unfolding listCalls_delivered [OF d]
    using d
    by (simp add: metadata_only_envelope_def example_metadata_def envelope_field_def bind_err_def)
qed

text \<open>
  Claim C2, as the code has it. \<^verbatim>\<open>listDeals\<close> and \<^verbatim>\<open>listEmails\<close>: when the upstream
  answers with a success envelope that has no \<^verbatim>\<open>records\<close> metadata object, the
  method raises no error, and both \<^verbatim>\<open>cursor\<close> and \<^verbatim>\<open>totalRecords\<close> of its result
  are \<^verbatim>\<open>undefined\<close>.
\<close>

theorem missing_metadata_defaults_to_undefined:
  "(delivered fetch (listDeals fetch this f t c) (JObj env) \<and> map_of env ''records'' = None
      \<longrightarrow> (\<exists>recs. outcome (listDeals fetch this f t c)
                     = Inr \<lparr>records = recs, cursor = Undefined, totalRecords = Undefined\<rparr>))
   \<and> (delivered fetch (listEmails fetch this f t c) (JObj env) \<and> map_of env ''records'' = None
      \<longrightarrow> (\<exists>recs. outcome (listEmails fetch this f t c)
                     = Inr \<lparr>records = recs, cursor = Undefined, totalRecords = Undefined\<rparr>))"
proof (intro conjI impI; elim conjE)
  assume d: "delivered fetch (listDeals fetch this f t c) (JObj env)"
    and m: "map_of env ''records'' = None"
  show "\<exists>recs. outcome (listDeals fetch this f t c)
                 = Inr \<lparr>records = recs, cursor = Undefined, totalRecords = Undefined\<rparr>"
    unfolding listDeals_delivered [OF d] envelope_field_None [OF m]
    by (simp add: bind_err_def)
next
  assume d: "delivered fetch (listEmails fetch this f t c) (JObj env)"
    and m: "map_of env ''records'' = None"
  show "\<exists>recs. outcome (listEmails fetch this f t c)
                 = Inr \<lparr>records = recs, cursor = Undefined, totalRecords = Undefined\<rparr>"
    unfolding listEmails_delivered [OF d] envelope_field_None [OF m]
    by (simp add: bind_err_def)
qed

theorem missing_metadata_defaults_to_undefined_witness:
  "delivered (always bare_response)
      (listDeals (always bare_response) example_client None None None) (JObj bare_envelope)
   \<and> delivered (always bare_response)
      (listEmails (always bare_response) example_client None None None) (JObj bare_envelope)
   \<and> map_of bare_envelope ''records'' = None
   \<and> (\<exists>recs. outcome (listDeals (always bare_response) example_client None None None)
          = Inr \<lparr>records = recs, cursor = Undefined, totalRecords = Undefined\<rparr>)
   \<and> (\<exists>recs. outcome (listEmails (always bare_response) example_client None None None)
          = Inr \<lparr>records = recs, cursor = Undefined, totalRecords = Undefined\<rparr>)"
proof -
  have d1: "delivered (always bare_response)
      (listDeals (always bare_response) example_client None None None) (JObj bare_envelope)"
    by (rule always_delivered) (simp_all add: exchanges_simps ok_def bare_response_def)
  have d2: "delivered (always bare_response)
      (listEmails (always bare_response) example_client None None None) (JObj bare_envelope)"
    by (rule always_delivered) (simp_all add: exchanges_simps ok_def bare_response_def)
  have m: "map_of bare_envelope ''records'' = None" by (simp add: bare_envelope_def)
  show ?thesis
    using missing_metadata_defaults_to_undefined
      [of "always bare_response" example_client None None None bare_envelope] d1 d2 m
    by blast
qed

text \<open>
  \<^verbatim>\<open>listCalls\<close> reads \<^verbatim>\<open>response.records.cursor\<close> without a guard: on an envelope
  with no metadata object the read throws.
\<close>

theorem listCalls_missing_metadata_counterexample:
  "delivered (always calls_only_response)
      (listCalls (always calls_only_response) example_client None None None None)
      (JObj calls_only_envelope)
   \<and> map_of calls_only_envelope ''records'' = None
   \<and> outcome (listCalls (always calls_only_response) example_client None None None None)
       = Inl (TypeError ''cursor'')"
proof -
  have d: "delivered (always calls_only_response)
      (listCalls (always calls_only_response) example_client None None None None)
      (JObj calls_only_envelope)"
    by (rule always_delivered) (simp_all add: exchanges_simps ok_def calls_only_response_def)
  show ?thesis
    unfolding listCalls_delivered [OF d]
    using d by (simp add: calls_only_envelope_def envelope_field_def bind_err_def)
qed

lemma metadata_reads:
  assumes "map_of env ''records'' = Some (JObj meta)"
  shows "get_prop (envelope_field env ''records'') name = Inr (envelope_field meta name)"
    and "get_prop_opt (envelope_field env ''records'') name = Inr (envelope_field meta name)"
  unfolding envelope_field_Some [OF assms]
  by (rule get_prop_object, rule get_prop_opt_object)

text \<open>
  Claim C3. For each of \<^verbatim>\<open>listCalls\<close>, \<^verbatim>\<open>listUsers\<close>, \<^verbatim>\<open>listDeals\<close> and
  \<^verbatim>\<open>listEmails\<close>: when the upstream answers with a success envelope whose \<^verbatim>\<open>records\<close>
  metadata is an object, the method resolves, and the \<^verbatim>\<open>cursor\<close> and \<^verbatim>\<open>totalRecords\<close>
  of its result are exactly what that object holds under these two names: the decoded
  value where the name is there, \<^verbatim>\<open>undefined\<close> where it is not (a last page has no
  cursor). The \<^verbatim>\<open>records\<close> of the result is the envelope's array field, for the two
  POST listings with the empty sequence in place of a missing or falsy one.
\<close>

theorem metadata_passed_through:
  "(delivered fetch (listCalls fetch this f t w c) (JObj env)
      \<and> map_of env ''records'' = Some (JObj meta)
      \<longrightarrow> outcome (listCalls fetch this f t w c)
            = Inr \<lparr>records = envelope_field env ''calls'',
                   cursor = envelope_field meta ''cursor'',
                   totalRecords = envelope_field meta ''totalRecords''\<rparr>)
   \<and> (delivered fetch (listUsers fetch this c) (JObj env)
      \<and> map_of env ''records'' = Some (JObj meta)
      \<longrightarrow> outcome (listUsers fetch this c)
            = Inr \<lparr>records = envelope_field env ''users'',
                   cursor = envelope_field meta ''cursor'',
                   totalRecords = envelope_field meta ''totalRecords''\<rparr>)
   \<and> (delivered fetch (listDeals fetch this f t c) (JObj env)
      \<and> map_of env ''records'' = Some (JObj meta)
      \<longrightarrow> outcome (listDeals fetch this f t c)
            = Inr \<lparr>records = or_empty (envelope_field env ''deals''),
                   cursor = envelope_field meta ''cursor'',
                   totalRecords = envelope_field meta ''totalRecords''\<rparr>)
   \<and> (delivered fetch (listEmails fetch this f t c) (JObj env)
      \<and> map_of env ''records'' = Some (JObj meta)
      \<longrightarrow> outcome (listEmails fetch this f t c)
            = Inr \<lparr>records = or_empty (envelope_field env ''emailActivities''),
                   cursor = envelope_field meta ''cursor'',
                   totalRecords = envelope_field meta ''totalRecords''\<rparr>)
   \<and> (map_of meta name = Some j \<longrightarrow> envelope_field meta name = of_json j)
   \<and> (map_of meta name = None \<longrightarrow> envelope_field meta name = Undefined)"
proof (intro conjI impI; (elim conjE)?)
  assume d: "delivered fetch (listCalls fetch this f t w c) (JObj env)"
    and m: "map_of env ''records'' = Some (JObj meta)"
  show "outcome (listCalls fetch this f t w c)
            = Inr \<lparr>records = envelope_field env ''calls'',
                   cursor = envelope_field meta ''cursor'',
                   totalRecords = envelope_field meta ''totalRecords''\<rparr>"
    unfolding listCalls_delivered [OF d] metadata_reads [OF m] by (simp add: bind_err_def)
next
  assume d: "delivered fetch (listUsers fetch this c) (JObj env)"
    and m: "map_of env ''records'' = Some (JObj meta)"
  show "outcome (listUsers fetch this c)
            = Inr \<lparr>records = envelope_field env ''users'',
                   cursor = envelope_field meta ''cursor'',
                   totalRecords = envelope_field meta ''totalRecords''\<rparr>"
    unfolding listUsers_delivered [OF d] metadata_reads [OF m] by (simp add: bind_err_def)
next
  assume d: "delivered fetch (listDeals fetch this f t c) (JObj env)"
    and m: "map_of env ''records'' = Some (JObj meta)"
  show "outcome (listDeals fetch this f t c)
            = Inr \<lparr>records = or_empty (envelope_field env ''deals''),
                   cursor = envelope_field meta ''cursor'',
                   totalRecords = envelope_field meta ''totalRecords''\<rparr>"
    unfolding listDeals_delivered [OF d] metadata_reads [OF m] by (simp add: bind_err_def)
next
  assume d: "delivered fetch (listEmails fetch this f t c) (JObj env)"
    and m: "map_of env ''records'' = Some (JObj meta)"
  show "outcome (listEmails fetch this f t c)
            = Inr \<lparr>records = or_empty (envelope_field env ''emailActivities''),
                   cursor = envelope_field meta ''cursor'',
                   totalRecords = envelope_field meta ''totalRecords''\<rparr>"
    unfolding listEmails_delivered [OF d] metadata_reads [OF m] by (simp add: bind_err_def)
next
  assume "map_of meta name = Some j"
  then show "envelope_field meta name = of_json j" by (rule envelope_field_Some)
next
  assume "map_of meta name = None"
  then show "envelope_field meta name = Undefined" by (rule envelope_field_None)
qed

theorem metadata_passed_through_witness:
  "delivered (always metadata_only_response)
      (listCalls (always metadata_only_response) example_client None None None None)
      (JObj metadata_only_envelope)
   \<and> delivered (always metadata_only_response)
      (listUsers (always metadata_only_response) example_client None)
      (JObj metadata_only_envelope)
   \<and> delivered (always metadata_only_response)
      (listDeals (always metadata_only_response) example_client None None None)
      (JObj metadata_only_envelope)
   \<and> delivered (always metadata_only_response)
      (listEmails (always metadata_only_response) example_client None None None)
      (JObj metadata_only_envelope)
   \<and> map_of metadata_only_envelope ''records'' = Some (JObj example_metadata)
   \<and> map_of example_metadata ''cursor'' = Some (JStr ''eyJwIjoyfQ'')
   \<and> outcome (listCalls (always metadata_only_response) example_client None None None None)
       = Inr \<lparr>records = Undefined, cursor = Str ''eyJwIjoyfQ'', totalRecords = Num 263\<rparr>
   \<and> outcome (listUsers (always metadata_only_response) example_client None)
       = Inr \<lparr>records = Undefined, cursor = Str ''eyJwIjoyfQ'', totalRecords = Num 263\<rparr>
   \<and> outcome (listDeals (always metadata_only_response) example_client None None None)
       = Inr \<lparr>records = Arr [], cursor = Str ''eyJwIjoyfQ'', totalRecords = Num 263\<rparr>
   \<and> outcome (listEmails (always metadata_only_response) example_client None None None)
       = Inr \<lparr>records = Arr [], cursor = Str ''eyJwIjoyfQ'', totalRecords = Num 263\<rparr>
   \<and> delivered (always last_page_response)
      (listCalls (always last_page_response) example_client None None None (Some ''eyJwIjoyfQ''))
      (JObj last_page_envelope)
   \<and> delivered (always last_page_response)
      (listDeals (always last_page_response) example_client None None (Some ''eyJwIjoyfQ''))
      (JObj last_page_envelope)
   \<and> map_of last_page_envelope ''records'' = Some (JObj last_page_metadata)
   \<and> map_of last_page_metadata ''cursor'' = None
   \<and> outcome (listCalls (always last_page_response) example_client None None None
                  (Some ''eyJwIjoyfQ''))
       = Inr \<lparr>records = Arr [], cursor = Undefined, totalRecords = Num 263\<rparr>
   \<and> outcome (listDeals (always last_page_response) example_client None None
                  (Some ''eyJwIjoyfQ''))
       = Inr \<lparr>records = Arr [], cursor = Undefined, totalRecords = Num 263\<rparr>"
proof -
  have d1: "delivered (always metadata_only_response)
      (listCalls (always metadata_only_response) example_client None None None None)
      (JObj metadata_only_envelope)"
    by (rule always_delivered) (simp_all add: exchanges_simps ok_def metadata_only_response_def)
  have d2: "delivered (always metadata_only_response)
      (listUsers (always metadata_only_response) example_client None)
      (JObj metadata_only_envelope)"
    by (rule always_delivered) (simp_all add: exchanges_simps ok_def metadata_only_response_def)
  have d3: "delivered (always metadata_only_response)
      (listDeals (always metadata_only_response) example_client None None None)
      (JObj metadata_only_envelope)"
    by (rule always_delivered) (simp_all add: exchanges_simps ok_def metadata_only_response_def)
  have d4: "delivered (always metadata_only_response)
      (listEmails (always metadata_only_response) example_client None None None)
      (JObj metadata_only_envelope)"
    by (rule always_delivered) (simp_all add: exchanges_simps ok_def metadata_only_response_def)
  have m: "map_of metadata_only_envelope ''records'' = Some (JObj example_metadata)"
    by (simp add: metadata_only_envelope_def)
  have mc: "map_of example_metadata ''cursor'' = Some (JStr ''eyJwIjoyfQ'')"
    by (simp add: example_metadata_def)
  have e5: "delivered (always last_page_response)
      (listCalls (always last_page_response) example_client None None None (Some ''eyJwIjoyfQ''))
      (JObj last_page_envelope)"
    by (rule always_delivered) (simp_all add: exchanges_simps ok_def last_page_response_def)
  have e6: "delivered (always last_page_response)
      (listDeals (always last_page_response) example_client None None (Some ''eyJwIjoyfQ''))
      (JObj last_page_envelope)"
    by (rule always_delivered) (simp_all add: exchanges_simps ok_def last_page_response_def)
  have l: "map_of last_page_envelope ''records'' = Some (JObj last_page_metadata)"
    by (simp add: last_page_envelope_def)
  have lc: "map_of last_page_metadata ''cursor'' = None"
    by (simp add: last_page_metadata_def)
  have v: "envelope_field metadata_only_envelope ''calls'' = Undefined"
    "envelope_field metadata_only_envelope ''users'' = Undefined"
    "or_empty (envelope_field metadata_only_envelope ''deals'') = Arr []"
    "or_empty (envelope_field metadata_only_envelope ''emailActivities'') = Arr []"
    "envelope_field example_metadata ''totalRecords'' = Num 263"
    "envelope_field last_page_envelope ''calls'' = Arr []"
    "or_empty (envelope_field last_page_envelope ''deals'') = Arr []"
    "envelope_field last_page_metadata ''totalRecords'' = Num 263"
    by (simp_all add: envelope_field_def or_empty_def metadata_only_envelope_def
        example_metadata_def last_page_envelope_def last_page_metadata_def)
  note first = metadata_passed_through
      [of "always metadata_only_response" example_client None None None None
          metadata_only_envelope example_metadata "''cursor''" "JStr ''eyJwIjoyfQ''"]
  note last = metadata_passed_through
      [of "always last_page_response" example_client None None None "Some ''eyJwIjoyfQ''"
          last_page_envelope last_page_metadata "''cursor''" "JNull"]
  have c1: "envelope_field example_metadata ''cursor'' = Str ''eyJwIjoyfQ''"
    using first mc by simp
  have c2: "envelope_field last_page_metadata ''cursor'' = Undefined"
    using last lc by simp
  show ?thesis
    using first last d1 d2 d3 d4 m mc e5 e6 l lc
    unfolding c1 c2 v by simp
qed

subsection \<open>Lookups without pagination\<close>

lemma getTranscript_delivered:
  assumes "delivered fetch (getTranscript fetch this callId) (JObj env)"
  shows "outcome (getTranscript fetch this callId) = get_index0 (envelope_field env ''callTranscripts'')"
  using assms unfolding getTranscript_def
  by (simp only: after_request_delivered get_prop_envelope) (simp add: bind_err_def)

text \<open>
  Claim C6. \<^verbatim>\<open>getTranscript\<close> sends one request whose body is a \<^verbatim>\<open>filter\<close> object
  holding \<^verbatim>\<open>callIds\<close>, the one-element array of the given identifier; and when the
  upstream answers with a success envelope whose \<^verbatim>\<open>callTranscripts\<close> is the empty
  array, the method resolves to \<^verbatim>\<open>undefined\<close> and throws nothing.
\<close>

theorem getTranscript_single_id_and_empty_result:
  "map body (exchanges (getTranscript fetch this callId))
     = [Some (JObj [(''filter'', JObj [(''callIds'', JArr [JStr callId])])])]
   \<and> (delivered fetch (getTranscript fetch this callId) (JObj env)
        \<and> map_of env ''callTranscripts'' = Some (JArr [])
      \<longrightarrow> outcome (getTranscript fetch this callId) = Inr Undefined)"
proof (intro conjI impI; (elim conjE)?)
  show "map body (exchanges (getTranscript fetch this callId))
     = [Some (JObj [(''filter'', JObj [(''callIds'', JArr [JStr callId])])])]"
    by (simp add: getTranscript_def after_exchanges request_exchanges request_of_def)
next
  assume d: "delivered fetch (getTranscript fetch this callId) (JObj env)"
    and m: "map_of env ''callTranscripts'' = Some (JArr [])"
  show "outcome (getTranscript fetch this callId) = Inr Undefined"
    unfolding getTranscript_delivered [OF d] envelope_field_Some [OF m] by simp
qed

theorem getTranscript_single_id_and_empty_result_witness:
  "delivered (always no_transcript_response)
      (getTranscript (always no_transcript_response) example_client ''call-1'')
      (JObj no_transcript_envelope)
   \<and> map_of no_transcript_envelope ''callTranscripts'' = Some (JArr [])
   \<and> outcome (getTranscript (always no_transcript_response) example_client ''call-1'')
       = Inr Undefined"
proof -
  have d: "delivered (always no_transcript_response)
      (getTranscript (always no_transcript_response) example_client ''call-1'')
      (JObj no_transcript_envelope)"
    by (rule always_delivered) (simp_all add: exchanges_simps ok_def no_transcript_response_def)
  have m: "map_of no_transcript_envelope ''callTranscripts'' = Some (JArr [])"
    by (simp add: no_transcript_envelope_def)
  show ?thesis
    using getTranscript_single_id_and_empty_result
      [of "always no_transcript_response" example_client "''call-1''" no_transcript_envelope] d m
    by simp
qed

lemma getCallsByCrmObject_delivered:
  assumes "delivered fetch (getCallsByCrmObject fetch this ot oids f t) (JObj env)"
  shows "outcome (getCallsByCrmObject fetch this ot oids f t) = Inr (envelope_field env ''crmCallsLinks'')"
  using assms unfolding getCallsByCrmObject_def
  by (simp only: after_request_delivered get_prop_envelope)

lemma getCallsExtensive_delivered:
  assumes "delivered fetch (getCallsExtensive fetch this callIds) (JObj env)"
  shows "outcome (getCallsExtensive fetch this callIds) = Inr (envelope_field env ''calls'')"
  using assms unfolding getCallsExtensive_def
  by (simp only: after_request_delivered get_prop_envelope)

lemma getUsers_delivered:
  assumes "delivered fetch (getUsers fetch this userIds) (JObj env)"
  shows "outcome (getUsers fetch this userIds) = Inr (envelope_field env ''users'')"
  using assms unfolding getUsers_def
  by (simp only: after_request_delivered get_prop_envelope)

lemma getUserStats_delivered:
  assumes "delivered fetch (getUserStats fetch this fd td uids) (JObj env)"
  shows "outcome (getUserStats fetch this fd td uids) = Inr (envelope_field env ''usersStats'')"
  using assms unfolding getUserStats_def
  by (simp only: after_request_delivered get_prop_envelope)

lemma listLibraryFolders_delivered:
  assumes "delivered fetch (listLibraryFolders fetch this) (JObj env)"
  shows "outcome (listLibraryFolders fetch this) = Inr (envelope_field env ''libraryFolders'')"
  using assms unfolding listLibraryFolders_def
  by (simp only: after_request_delivered get_prop_envelope)

text \<open>
  Claim C10. The lookups without pagination hand back the envelope's array field as it
  is, with no default. When the upstream answers with a success envelope,
  \<^verbatim>\<open>getCallsByCrmObject\<close> resolves to the envelope's \<^verbatim>\<open>crmCallsLinks\<close>,
  \<^verbatim>\<open>getCallsExtensive\<close> to its \<^verbatim>\<open>calls\<close>, \<^verbatim>\<open>getUsers\<close> to its \<^verbatim>\<open>users\<close>,
  \<^verbatim>\<open>getUserStats\<close> to its \<^verbatim>\<open>usersStats\<close> and \<^verbatim>\<open>listLibraryFolders\<close> to its
  \<^verbatim>\<open>libraryFolders\<close>: the decoded value where the envelope has the field,
  \<^verbatim>\<open>undefined\<close> where it has not. So on an envelope that omits the field each of the
  five resolves to \<^verbatim>\<open>undefined\<close>, which is not the empty list.
\<close>

theorem unwrap_methods_have_no_default:
  "(delivered fetch (getCallsByCrmObject fetch this ot oids f t) (JObj env)
      \<longrightarrow> outcome (getCallsByCrmObject fetch this ot oids f t) = Inr (envelope_field env ''crmCallsLinks''))
   \<and> (delivered fetch (getCallsExtensive fetch this callIds) (JObj env)
      \<longrightarrow> outcome (getCallsExtensive fetch this callIds) = Inr (envelope_field env ''calls''))
   \<and> (delivered fetch (getUsers fetch this userIds) (JObj env)
      \<longrightarrow> outcome (getUsers fetch this userIds) = Inr (envelope_field env ''users''))
   \<and> (delivered fetch (getUserStats fetch this fd td uids) (JObj env)
      \<longrightarrow> outcome (getUserStats fetch this fd td uids) = Inr (envelope_field env ''usersStats''))
   \<and> (delivered fetch (listLibraryFolders fetch this) (JObj env)
      \<longrightarrow> outcome (listLibraryFolders fetch this) = Inr (envelope_field env ''libraryFolders''))
   \<and> (map_of env name = None \<longrightarrow> envelope_field env name = Undefined)
   \<and> (map_of env name = Some j \<longrightarrow> envelope_field env name = of_json j)
   \<and> (delivered fetch (getCallsByCrmObject fetch this ot oids f t) (JObj env)
      \<and> map_of env ''crmCallsLinks'' = None
      \<longrightarrow> outcome (getCallsByCrmObject fetch this ot oids f t) = Inr Undefined)
   \<and> (delivered fetch (getCallsExtensive fetch this callIds) (JObj env)
      \<and> map_of env ''calls'' = None
      \<longrightarrow> outcome (getCallsExtensive fetch this callIds) = Inr Undefined)
   \<and> (delivered fetch (getUsers fetch this userIds) (JObj env)
      \<and> map_of env ''users'' = None
      \<longrightarrow> outcome (getUsers fetch this userIds) = Inr Undefined)
   \<and> (delivered fetch (getUserStats fetch this fd td uids) (JObj env)
      \<and> map_of env ''usersStats'' = None
      \<longrightarrow> outcome (getUserStats fetch this fd td uids) = Inr Undefined)
   \<and> (delivered fetch (listLibraryFolders fetch this) (JObj env)
      \<and> map_of env ''libraryFolders'' = None
      \<longrightarrow> outcome (listLibraryFolders fetch this) = Inr Undefined)
   \<and> Inr Undefined \<noteq> (Inr (Arr []) :: js_error + jsval)"
proof -
  have absent: "\<And>k. map_of env k = None \<Longrightarrow> envelope_field env k = Undefined"
    by (rule envelope_field_None)
  have present: "map_of env name = Some j \<Longrightarrow> envelope_field env name = of_json j"
    by (rule envelope_field_Some)
  show ?thesis
    by (intro conjI impI; (elim conjE)?)
       (simp_all add: getCallsByCrmObject_delivered getCallsExtensive_delivered
          getUsers_delivered getUserStats_delivered listLibraryFolders_delivered
          absent present)
qed

theorem unwrap_methods_have_no_default_witness:
  "delivered (always bare_response)
      (getCallsByCrmObject (always bare_response) example_client Deal [''d1''] None None) (JObj bare_envelope)
   \<and> delivered (always bare_response)
      (getCallsExtensive (always bare_response) example_client [''call-1'']) (JObj bare_envelope)
   \<and> delivered (always bare_response)
      (getUsers (always bare_response) example_client [''u1'']) (JObj bare_envelope)
   \<and> delivered (always bare_response)
      (getUserStats (always bare_response) example_client ''2024-01-01'' ''2024-02-01'' None) (JObj bare_envelope)
   \<and> delivered (always bare_response)
      (listLibraryFolders (always bare_response) example_client) (JObj bare_envelope)
   \<and> map_of bare_envelope ''crmCallsLinks'' = None
   \<and> map_of bare_envelope ''calls'' = None
   \<and> map_of bare_envelope ''users'' = None
   \<and> map_of bare_envelope ''usersStats'' = None
   \<and> map_of bare_envelope ''libraryFolders'' = None
   \<and> outcome (getCallsByCrmObject (always bare_response) example_client Deal [''d1''] None None) = Inr Undefined
   \<and> outcome (getCallsExtensive (always bare_response) example_client [''call-1'']) = Inr Undefined
   \<and> outcome (getUsers (always bare_response) example_client [''u1'']) = Inr Undefined
   \<and> outcome (getUserStats (always bare_response) example_client ''2024-01-01'' ''2024-02-01'' None) = Inr Undefined
   \<and> outcome (listLibraryFolders (always bare_response) example_client) = Inr Undefined
   \<and> delivered (always arrays_response)
      (getCallsByCrmObject (always arrays_response) example_client Deal [''d1''] None None) (JObj arrays_envelope)
   \<and> delivered (always arrays_response)
      (getCallsExtensive (always arrays_response) example_client [''call-1'']) (JObj arrays_envelope)
   \<and> delivered (always arrays_response)
      (getUsers (always arrays_response) example_client [''u1'']) (JObj arrays_envelope)
   \<and> delivered (always arrays_response)
      (getUserStats (always arrays_response) example_client ''2024-01-01'' ''2024-02-01'' None) (JObj arrays_envelope)
   \<and> delivered (always arrays_response)
      (listLibraryFolders (always arrays_response) example_client) (JObj arrays_envelope)
   \<and> map_of arrays_envelope ''users'' = Some (JArr [JObj [(''id'', JStr ''u1'')]])
   \<and> outcome (getCallsByCrmObject (always arrays_response) example_client Deal [''d1''] None None)
       = Inr (Arr [Obj [(''objectId'', Str ''d1''),
                       (''calls'', Arr [Obj [(''callId'', Str ''call-1'')]])]])
   \<and> outcome (getCallsExtensive (always arrays_response) example_client [''call-1''])
       = Inr (Arr [Obj [(''id'', Str ''call-1'')]])
   \<and> outcome (getUsers (always arrays_response) example_client [''u1''])
       = Inr (Arr [Obj [(''id'', Str ''u1'')]])
   \<and> outcome (getUserStats (always arrays_response) example_client ''2024-01-01'' ''2024-02-01'' None)
       = Inr (Arr [Obj [(''userId'', Str ''u1'')]])
   \<and> outcome (listLibraryFolders (always arrays_response) example_client)
       = Inr (Arr [Obj [(''id'', Str ''f1''), (''name'', Str ''Wins'')]])"
proof -
  have d1: "delivered (always bare_response)
      (getCallsByCrmObject (always bare_response) example_client Deal [''d1''] None None) (JObj bare_envelope)"
    by (rule always_delivered) (simp_all add: exchanges_simps ok_def bare_response_def)
  have d2: "delivered (always bare_response)
      (getCallsExtensive (always bare_response) example_client [''call-1'']) (JObj bare_envelope)"
    by (rule always_delivered) (simp_all add: exchanges_simps ok_def bare_response_def)
  have d3: "delivered (always bare_response)
      (getUsers (always bare_response) example_client [''u1'']) (JObj bare_envelope)"
    by (rule always_delivered) (simp_all add: exchanges_simps ok_def bare_response_def)
  have d4: "delivered (always bare_response)
      (getUserStats (always bare_response) example_client ''2024-01-01'' ''2024-02-01'' None) (JObj bare_envelope)"
    by (rule always_delivered) (simp_all add: exchanges_simps ok_def bare_response_def)
  have d5: "delivered (always bare_response)
      (listLibraryFolders (always bare_response) example_client) (JObj bare_envelope)"
    by (rule always_delivered) (simp_all add: exchanges_simps ok_def bare_response_def)
  have d6: "delivered (always arrays_response)
      (getCallsByCrmObject (always arrays_response) example_client Deal [''d1''] None None) (JObj arrays_envelope)"
    by (rule always_delivered) (simp_all add: exchanges_simps ok_def arrays_response_def)
  have d7: "delivered (always arrays_response)
      (getCallsExtensive (always arrays_response) example_client [''call-1'']) (JObj arrays_envelope)"
    by (rule always_delivered) (simp_all add: exchanges_simps ok_def arrays_response_def)
  have d8: "delivered (always arrays_response)
      (getUsers (always arrays_response) example_client [''u1'']) (JObj arrays_envelope)"
    by (rule always_delivered) (simp_all add: exchanges_simps ok_def arrays_response_def)
  have d9: "delivered (always arrays_response)
      (getUserStats (always arrays_response) example_client ''2024-01-01'' ''2024-02-01'' None) (JObj arrays_envelope)"
    by (rule always_delivered) (simp_all add: exchanges_simps ok_def arrays_response_def)
  have d10: "delivered (always arrays_response)
      (listLibraryFolders (always arrays_response) example_client) (JObj arrays_envelope)"
    by (rule always_delivered) (simp_all add: exchanges_simps ok_def arrays_response_def)
  have m: "map_of bare_envelope ''crmCallsLinks'' = None" "map_of bare_envelope ''calls'' = None" "map_of bare_envelope ''users'' = None" "map_of bare_envelope ''usersStats'' = None" "map_of bare_envelope ''libraryFolders'' = None"
    by (simp_all add: bare_envelope_def)
  have p: "map_of arrays_envelope ''users'' = Some (JArr [JObj [(''id'', JStr ''u1'')]])"
    by (simp add: arrays_envelope_def)
  have v:
    "envelope_field arrays_envelope ''crmCallsLinks''
       = Arr [Obj [(''objectId'', Str ''d1''),
                       (''calls'', Arr [Obj [(''callId'', Str ''call-1'')]])]]"
    "envelope_field arrays_envelope ''calls'' = Arr [Obj [(''id'', Str ''call-1'')]]"
    "envelope_field arrays_envelope ''users'' = Arr [Obj [(''id'', Str ''u1'')]]"
    "envelope_field arrays_envelope ''usersStats'' = Arr [Obj [(''userId'', Str ''u1'')]]"
    "envelope_field arrays_envelope ''libraryFolders'' = Arr [Obj [(''id'', Str ''f1''), (''name'', Str ''Wins'')]]"
    "envelope_field bare_envelope ''crmCallsLinks'' = Undefined"
    "envelope_field bare_envelope ''calls'' = Undefined"
    "envelope_field bare_envelope ''users'' = Undefined"
    "envelope_field bare_envelope ''usersStats'' = Undefined"
    "envelope_field bare_envelope ''libraryFolders'' = Undefined"
    by (simp_all add: envelope_field_def arrays_envelope_def bare_envelope_def)
  note omitted = unwrap_methods_have_no_default
      [of "always bare_response" example_client Deal "[''d1'']" None None bare_envelope
          "[''call-1'']" "[''u1'']" "''2024-01-01''" "''2024-02-01''" None "''users''" JNull]
  note given = unwrap_methods_have_no_default
      [of "always arrays_response" example_client Deal "[''d1'']" None None arrays_envelope
          "[''call-1'']" "[''u1'']" "''2024-01-01''" "''2024-02-01''" None "''users''"
          "JArr [JObj [(''id'', JStr ''u1'')]]"]
  show ?thesis
    using omitted [unfolded v] given [unfolded v] d1 d2 d3 d4 d5 d6 d7 d8 d9 d10 m p
    by simp
qed

subsection \<open>Refusals of the upstream\<close>

lemma error_message_mentions:
  "sublist (show_nat (status response)) (error_message response)"
  "sublist (body_text response) (error_message response)"
proof -
  have "error_message response
          = ''Gong API error ('' @ show_nat (status response) @ (''): '' @ body_text response)"
    by (simp add: error_message_def)
  then show "sublist (show_nat (status response)) (error_message response)"
    by (simp only: sublist_appendI)
  have "error_message response
          = (''Gong API error ('' @ show_nat (status response) @ ''): '') @ body_text response"
    by (simp add: error_message_def)
  then show "sublist (body_text response) (error_message response)"
    by (simp only: sublist_append_leftI)
qed

lemma one_exchange:
  "length (exchanges (request fetch this endpoint method b)) = 1"
  "length (exchanges (listCalls fetch this f t w c)) = 1"
  "length (exchanges (getCallsExtensive fetch this callIds)) = 1"
  "length (exchanges (getTranscript fetch this callId)) = 1"
  "length (exchanges (searchCalls fetch this term f t puids c)) = 1"
  "length (exchanges (listUsers fetch this c)) = 1"
  "length (exchanges (getUsers fetch this userIds)) = 1"
  "length (exchanges (getCallsByCrmObject fetch this ot oids f t)) = 1"
  "length (exchanges (listDeals fetch this f t c)) = 1"
  "length (exchanges (listEmails fetch this f t c)) = 1"
  "length (exchanges (getUserStats fetch this fd td uids)) = 1"
  "length (exchanges (listLibraryFolders fetch this)) = 1"
  by (simp_all add: exchanges_simps)

lemma refused:
  "answered fetch (listCalls fetch this f t w c) response \<Longrightarrow> \<not> ok response \<Longrightarrow>
     outcome (listCalls fetch this f t w c) = Inl (Error (error_message response))"
  "answered fetch (getCallsExtensive fetch this callIds) response \<Longrightarrow> \<not> ok response \<Longrightarrow>
     outcome (getCallsExtensive fetch this callIds) = Inl (Error (error_message response))"
  "answered fetch (getTranscript fetch this callId) response \<Longrightarrow> \<not> ok response \<Longrightarrow>
     outcome (getTranscript fetch this callId) = Inl (Error (error_message response))"
  "answered fetch (searchCalls fetch this term f t puids c) response \<Longrightarrow> \<not> ok response \<Longrightarrow>
     outcome (searchCalls fetch this term f t puids c) = Inl (Error (error_message response))"
  "answered fetch (listUsers fetch this c) response \<Longrightarrow> \<not> ok response \<Longrightarrow>
     outcome (listUsers fetch this c) = Inl (Error (error_message response))"
  "answered fetch (getUsers fetch this userIds) response \<Longrightarrow> \<not> ok response \<Longrightarrow>
     outcome (getUsers fetch this userIds) = Inl (Error (error_message response))"
  "answered fetch (getCallsByCrmObject fetch this ot oids f t) response \<Longrightarrow> \<not> ok response \<Longrightarrow>
     outcome (getCallsByCrmObject fetch this ot oids f t) = Inl (Error (error_message response))"
  "answered fetch (listDeals fetch this f t c) response \<Longrightarrow> \<not> ok response \<Longrightarrow>
     outcome (listDeals fetch this f t c) = Inl (Error (error_message response))"
  "answered fetch (listEmails fetch this f t c) response \<Longrightarrow> \<not> ok response \<Longrightarrow>
     outcome (listEmails fetch this f t c) = Inl (Error (error_message response))"
  "answered fetch (getUserStats fetch this fd td uids) response \<Longrightarrow> \<not> ok response \<Longrightarrow>
     outcome (getUserStats fetch this fd td uids) = Inl (Error (error_message response))"
  "answered fetch (listLibraryFolders fetch this) response \<Longrightarrow> \<not> ok response \<Longrightarrow>
     outcome (listLibraryFolders fetch this) = Inl (Error (error_message response))"
  unfolding method_defs Let_def by (rule after_request_refused; assumption)+

text \<open>
  Claim C7. Whatever method is invoked, it makes exactly one exchange with the
  upstream; and when the upstream answers that exchange with a status outside 200..299,
  the method fails with one \<^verbatim>\<open>Error\<close> whose message is
  \<^verbatim>\<open>Gong API error (<status>): <body text>\<close>, which contains the decimal status code and
  the body text as received. In particular status 429 with body \<^verbatim>\<open>rate limited\<close> gives
  the message \<^verbatim>\<open>Gong API error (429): rate limited\<close>.
\<close>

theorem non_success_status_fails_once:
  "(answered fetch (listCalls fetch this f t w c) response \<and> \<not> ok response
      \<longrightarrow> outcome (listCalls fetch this f t w c) = Inl (Error (error_message response)))
   \<and> (answered fetch (getCallsExtensive fetch this callIds) response \<and> \<not> ok response
      \<longrightarrow> outcome (getCallsExtensive fetch this callIds) = Inl (Error (error_message response)))
   \<and> (answered fetch (getTranscript fetch this callId) response \<and> \<not> ok response
      \<longrightarrow> outcome (getTranscript fetch this callId) = Inl (Error (error_message response)))
   \<and> (answered fetch (searchCalls fetch this term f t puids c) response \<and> \<not> ok response
      \<longrightarrow> outcome (searchCalls fetch this term f t puids c) = Inl (Error (error_message response)))
   \<and> (answered fetch (listUsers fetch this c) response \<and> \<not> ok response
      \<longrightarrow> outcome (listUsers fetch this c) = Inl (Error (error_message response)))
   \<and> (answered fetch (getUsers fetch this userIds) response \<and> \<not> ok response
      \<longrightarrow> outcome (getUsers fetch this userIds) = Inl (Error (error_message response)))
   \<and> (answered fetch (getCallsByCrmObject fetch this ot oids f t) response \<and> \<not> ok response
      \<longrightarrow> outcome (getCallsByCrmObject fetch this ot oids f t)
            = Inl (Error (error_message response)))
   \<and> (answered fetch (listDeals fetch this f t c) response \<and> \<not> ok response
      \<longrightarrow> outcome (listDeals fetch this f t c) = Inl (Error (error_message response)))
   \<and> (answered fetch (listEmails fetch this f t c) response \<and> \<not> ok response
      \<longrightarrow> outcome (listEmails fetch this f t c) = Inl (Error (error_message response)))
   \<and> (answered fetch (getUserStats fetch this fd td uids) response \<and> \<not> ok response
      \<longrightarrow> outcome (getUserStats fetch this fd td uids) = Inl (Error (error_message response)))
   \<and> (answered fetch (listLibraryFolders fetch this) response \<and> \<not> ok response
      \<longrightarrow> outcome (listLibraryFolders fetch this) = Inl (Error (error_message response)))
   \<and> sublist (show_nat (status response)) (error_message response)
   \<and> sublist (body_text response) (error_message response)
   \<and> length (exchanges (listCalls fetch this f t w c)) = 1
   \<and> length (exchanges (getCallsExtensive fetch this callIds)) = 1
   \<and> length (exchanges (getTranscript fetch this callId)) = 1
   \<and> length (exchanges (searchCalls fetch this term f t puids c)) = 1
   \<and> length (exchanges (listUsers fetch this c)) = 1
   \<and> length (exchanges (getUsers fetch this userIds)) = 1
   \<and> length (exchanges (getCallsByCrmObject fetch this ot oids f t)) = 1
   \<and> length (exchanges (listDeals fetch this f t c)) = 1
   \<and> length (exchanges (listEmails fetch this f t c)) = 1
   \<and> length (exchanges (getUserStats fetch this fd td uids)) = 1
   \<and> length (exchanges (listLibraryFolders fetch this)) = 1
   \<and> error_message rate_limited_response = ''Gong API error (429): rate limited''"
proof -
  have "show_nat 429 = ''429''"
    by (simp add: show_nat.simps digit_char_def)
  then have "error_message rate_limited_response = ''Gong API error (429): rate limited''"
    by (simp add: error_message_def rate_limited_response_def)
  moreover note refused [of fetch this] one_exchange [of fetch this]
    error_message_mentions [of response]
  ultimately show ?thesis
    by (intro conjI impI; (elim conjE)?) (assumption | blast)+
qed

lemma always_answered: "exchanges r = [req] \<Longrightarrow> answered (always response) r response"
  by (simp add: answered_def always_def)

theorem non_success_status_fails_once_witness:
  "\<not> ok rate_limited_response
   \<and> answered (always rate_limited_response)
      (listCalls (always rate_limited_response) example_client None None None None) rate_limited_response
   \<and> answered (always rate_limited_response)
      (getCallsExtensive (always rate_limited_response) example_client [''call-1'']) rate_limited_response
   \<and> answered (always rate_limited_response)
      (getTranscript (always rate_limited_response) example_client ''call-1'') rate_limited_response
   \<and> answered (always rate_limited_response)
      (searchCalls (always rate_limited_response) example_client (Some ''renewal'') None None None None) rate_limited_response
   \<and> answered (always rate_limited_response)
      (listUsers (always rate_limited_response) example_client None) rate_limited_response
   \<and> answered (always rate_limited_response)
      (getUsers (always rate_limited_response) example_client [''u1'']) rate_limited_response
   \<and> answered (always rate_limited_response)
      (getCallsByCrmObject (always rate_limited_response) example_client Deal [''d1''] None None) rate_limited_response
   \<and> answered (always rate_limited_response)
      (listDeals (always rate_limited_response) example_client None None None) rate_limited_response
   \<and> answered (always rate_limited_response)
      (listEmails (always rate_limited_response) example_client None None None) rate_limited_response
   \<and> answered (always rate_limited_response)
      (getUserStats (always rate_limited_response) example_client ''2024-01-01'' ''2024-02-01'' None) rate_limited_response
   \<and> answered (always rate_limited_response)
      (listLibraryFolders (always rate_limited_response) example_client) rate_limited_response
   \<and> outcome (listCalls (always rate_limited_response) example_client None None None None)
       = Inl (Error ''Gong API error (429): rate limited'')
   \<and> outcome (getCallsExtensive (always rate_limited_response) example_client [''call-1''])
       = Inl (Error ''Gong API error (429): rate limited'')
   \<and> outcome (getTranscript (always rate_limited_response) example_client ''call-1'')
       = Inl (Error ''Gong API error (429): rate limited'')
   \<and> outcome (searchCalls (always rate_limited_response) example_client (Some ''renewal'') None None None None)
       = Inl (Error ''Gong API error (429): rate limited'')
   \<and> outcome (listUsers (always rate_limited_response) example_client None)
       = Inl (Error ''Gong API error (429): rate limited'')
   \<and> outcome (getUsers (always rate_limited_response) example_client [''u1''])
       = Inl (Error ''Gong API error (429): rate limited'')
   \<and> outcome (getCallsByCrmObject (always rate_limited_response) example_client Deal [''d1''] None None)
       = Inl (Error ''Gong API error (429): rate limited'')
   \<and> outcome (listDeals (always rate_limited_response) example_client None None None)
       = Inl (Error ''Gong API error (429): rate limited'')
   \<and> outcome (listEmails (always rate_limited_response) example_client None None None)
       = Inl (Error ''Gong API error (429): rate limited'')
   \<and> outcome (getUserStats (always rate_limited_response) example_client ''2024-01-01'' ''2024-02-01'' None)
       = Inl (Error ''Gong API error (429): rate limited'')
   \<and> outcome (listLibraryFolders (always rate_limited_response) example_client)
       = Inl (Error ''Gong API error (429): rate limited'')"
proof -
  have n: "\<not> ok rate_limited_response"
    by (simp add: ok_def rate_limited_response_def)
  have a:
    "answered (always rate_limited_response)
      (listCalls (always rate_limited_response) example_client None None None None) rate_limited_response"
    "answered (always rate_limited_response)
      (getCallsExtensive (always rate_limited_response) example_client [''call-1'']) rate_limited_response"
    "answered (always rate_limited_response)
      (getTranscript (always rate_limited_response) example_client ''call-1'') rate_limited_response"
    "answered (always rate_limited_response)
      (searchCalls (always rate_limited_response) example_client (Some ''renewal'') None None None None) rate_limited_response"
    "answered (always rate_limited_response)
      (listUsers (always rate_limited_response) example_client None) rate_limited_response"
    "answered (always rate_limited_response)
      (getUsers (always rate_limited_response) example_client [''u1'']) rate_limited_response"
    "answered (always rate_limited_response)
      (getCallsByCrmObject (always rate_limited_response) example_client Deal [''d1''] None None) rate_limited_response"
    "answered (always rate_limited_response)
      (listDeals (always rate_limited_response) example_client None None None) rate_limited_response"
    "answered (always rate_limited_response)
      (listEmails (always rate_limited_response) example_client None None None) rate_limited_response"
    "answered (always rate_limited_response)
      (getUserStats (always rate_limited_response) example_client ''2024-01-01'' ''2024-02-01'' None) rate_limited_response"
    "answered (always rate_limited_response)
      (listLibraryFolders (always rate_limited_response) example_client) rate_limited_response"
    by (rule always_answered, simp add: exchanges_simps)+
  have "show_nat 429 = ''429''"
    by (simp add: show_nat.simps digit_char_def)
  then have m: "error_message rate_limited_response = ''Gong API error (429): rate limited''"
    by (simp add: error_message_def rate_limited_response_def)
  show ?thesis
    using non_success_status_fails_once
      [of "always rate_limited_response" example_client None None None None rate_limited_response
          "[''call-1'']" "''call-1''" "Some ''renewal''" None "[''u1'']" Deal "[''d1'']"
          "''2024-01-01''" "''2024-02-01''" None] n a
    unfolding m by simp
qed

subsection \<open>The credential\<close>

lemma sent_authorization_request:
  "sent_authorization (request fetch this endpoint method b) = [Some (authHeader this)]"
  by (simp add: sent_authorization_def request_exchanges request_of_def)

lemma sent_authorization_after:
  "sent_authorization (after r k) = sent_authorization r"
  by (simp add: sent_authorization_def after_exchanges)

lemma this_after_method:
  "this_after (listCalls fetch this f t w c) = this"
  "this_after (getCallsExtensive fetch this callIds) = this"
  "this_after (getTranscript fetch this callId) = this"
  "this_after (searchCalls fetch this term f t puids c) = this"
  "this_after (listUsers fetch this c) = this"
  "this_after (getUsers fetch this userIds) = this"
  "this_after (getCallsByCrmObject fetch this ot oids f t) = this"
  "this_after (listDeals fetch this f t c) = this"
  "this_after (listEmails fetch this f t c) = this"
  "this_after (getUserStats fetch this fd td uids) = this"
  "this_after (listLibraryFolders fetch this) = this"
  by (simp_all add: method_defs Let_def after_this_after request_this_after)

lemma sent_authorization_method:
  "sent_authorization (listCalls fetch this f t w c) = [Some (authHeader this)]"
  "sent_authorization (getCallsExtensive fetch this callIds) = [Some (authHeader this)]"
  "sent_authorization (getTranscript fetch this callId) = [Some (authHeader this)]"
  "sent_authorization (searchCalls fetch this term f t puids c) = [Some (authHeader this)]"
  "sent_authorization (listUsers fetch this c) = [Some (authHeader this)]"
  "sent_authorization (getUsers fetch this userIds) = [Some (authHeader this)]"
  "sent_authorization (getCallsByCrmObject fetch this ot oids f t) = [Some (authHeader this)]"
  "sent_authorization (listDeals fetch this f t c) = [Some (authHeader this)]"
  "sent_authorization (listEmails fetch this f t c) = [Some (authHeader this)]"
  "sent_authorization (getUserStats fetch this fd td uids) = [Some (authHeader this)]"
  "sent_authorization (listLibraryFolders fetch this) = [Some (authHeader this)]"
  by (simp_all add: method_defs Let_def sent_authorization_after sent_authorization_request)

text \<open>
  Claim C8. A client constructed with access key \<^verbatim>\<open>k\<close> and secret \<^verbatim>\<open>s\<close> holds the
  authorization header \<^verbatim>\<open>Basic \<close> followed by the base64 of \<^verbatim>\<open>k:s\<close>, that is
  \<^verbatim>\<open>Basic azpz\<close>; for any two secrets the header is \<^verbatim>\<open>Basic \<close> followed by the base64
  of \<^verbatim>\<open>accessKey:accessKeySecret\<close>. Every request of every method carries the header the
  client holds, also a request made on the client a previous call left behind: the
  value is fixed at construction and read, not built, per request.
\<close>

theorem credential_fixed_at_construction:
  "authHeader (constructor \<lparr>accessKey = ''k'', accessKeySecret = ''s''\<rparr>) = ''Basic '' @ base64 ''k:s''
   \<and> authHeader (constructor \<lparr>accessKey = ''k'', accessKeySecret = ''s''\<rparr>) = ''Basic azpz''
   \<and> authHeader (constructor config)
       = ''Basic '' @ base64 (accessKey config @ '':'' @ accessKeySecret config)
   \<and> sent_authorization (request fetch (constructor config) endpoint method b)
       = [Some (authHeader (constructor config))]
   \<and> sent_authorization (listCalls fetch (constructor config) f t w c)
       = [Some (authHeader (constructor config))]
   \<and> sent_authorization (getCallsExtensive fetch (constructor config) callIds)
       = [Some (authHeader (constructor config))]
   \<and> sent_authorization (getTranscript fetch (constructor config) callId)
       = [Some (authHeader (constructor config))]
   \<and> sent_authorization (searchCalls fetch (constructor config) term f t puids c)
       = [Some (authHeader (constructor config))]
   \<and> sent_authorization (listUsers fetch (constructor config) c)
       = [Some (authHeader (constructor config))]
   \<and> sent_authorization (getUsers fetch (constructor config) userIds)
       = [Some (authHeader (constructor config))]
   \<and> sent_authorization (getCallsByCrmObject fetch (constructor config) ot oids f t)
       = [Some (authHeader (constructor config))]
   \<and> sent_authorization (listDeals fetch (constructor config) f t c)
       = [Some (authHeader (constructor config))]
   \<and> sent_authorization (listEmails fetch (constructor config) f t c)
       = [Some (authHeader (constructor config))]
   \<and> sent_authorization (getUserStats fetch (constructor config) fd td uids)
       = [Some (authHeader (constructor config))]
   \<and> sent_authorization (listLibraryFolders fetch (constructor config))
       = [Some (authHeader (constructor config))]
   \<and> sent_authorization
         (listUsers fetch' (this_after (listCalls fetch (constructor config) f t w c)) c')
       = [Some (authHeader (constructor config))]
   \<and> sent_authorization
         (getTranscript fetch' (this_after (listDeals fetch (constructor config) f t c)) callId)
       = [Some (authHeader (constructor config))]"
proof -
  have "authHeader (constructor \<lparr>accessKey = ''k'', accessKeySecret = ''s''\<rparr>)
          = ''Basic '' @ base64 ''k:s''"
    by (simp add: constructor_def Let_def)
  moreover have "authHeader (constructor \<lparr>accessKey = ''k'', accessKeySecret = ''s''\<rparr>)
          = ''Basic azpz''"
    by (simp add: constructor_def Let_def b64_char_def)
  moreover have "authHeader (constructor config)
       = ''Basic '' @ base64 (accessKey config @ '':'' @ accessKeySecret config)"
    by (simp add: constructor_def Let_def)
  ultimately show ?thesis
    by (simp only: sent_authorization_method sent_authorization_request this_after_method simp_thms)
qed

text \<open>
  Claim C9. The client object has one field, the authorization header, and no call
  changes it: after the request primitive and after every method the client is the
  client it was.
\<close>

theorem client_state_unchanged:
  "this_after (request fetch this endpoint method b) = this
   \<and> this_after (listCalls fetch this f t w c) = this
   \<and> this_after (getCallsExtensive fetch this callIds) = this
   \<and> this_after (getTranscript fetch this callId) = this
   \<and> this_after (searchCalls fetch this term f t puids c) = this
   \<and> this_after (listUsers fetch this c) = this
   \<and> this_after (getUsers fetch this userIds) = this
   \<and> this_after (getCallsByCrmObject fetch this ot oids f t) = this
   \<and> this_after (listDeals fetch this f t c) = this
   \<and> this_after (listEmails fetch this f t c) = this
   \<and> this_after (getUserStats fetch this fd td uids) = this
   \<and> this_after (listLibraryFolders fetch this) = this
   \<and> this = \<lparr>authHeader = authHeader this\<rparr>"
  by (simp add: this_after_method request_this_after)

subsection \<open>Search\<close>

lemma form_encode_date: "form_encode ''2024-01-01T00:00:00Z'' = ''2024-01-01T00%3A00%3A00Z''"
  by (simp add: form_encode_def form_encode_char_def form_safe_def hex_char_def)

lemma form_encode_names:
  "form_encode ''fromDateTime'' = ''fromDateTime''"
  "form_encode ''toDateTime'' = ''toDateTime''"
  "form_encode ''workspaceId'' = ''workspaceId''"
  "form_encode ''cursor'' = ''cursor''"
  by (simp_all add: form_encode_def form_encode_char_def form_safe_def)

text \<open>
  Claim C5. \<^verbatim>\<open>searchCalls\<close> is \<^verbatim>\<open>listCalls\<close> on the \<^verbatim>\<open>fromDateTime\<close>,
  \<^verbatim>\<open>toDateTime\<close> and \<^verbatim>\<open>cursor\<close> of its input, with no workspace: the same exchanges
  and, against the same upstream, the same result. The search term and the user ids
  change nothing of what is sent or returned. The search for \<^verbatim>\<open>renewal\<close> from
  \<^verbatim>\<open>2024-01-01T00:00:00Z\<close> sends one GET to
  \<^verbatim>\<open>/calls?fromDateTime=2024-01-01T00%3A00%3A00Z\<close> with no body, as the listing from that
  date does.
\<close>

theorem searchCalls_is_listCalls:
  "searchCalls fetch this searchTerm f t primaryUserIds c = listCalls fetch this f t None c
   \<and> searchCalls fetch this searchTerm f t primaryUserIds c
       = searchCalls fetch this searchTerm' f t primaryUserIds' c
   \<and> exchanges (searchCalls fetch this (Some ''renewal'') (Some ''2024-01-01T00:00:00Z'')
                   None None None)
       = exchanges (listCalls fetch this (Some ''2024-01-01T00:00:00Z'') None None None)
   \<and> exchanges (searchCalls fetch this (Some ''renewal'') (Some ''2024-01-01T00:00:00Z'')
                   None None None)
       = [\<lparr>url = ''https://api.gong.io/v2/calls?fromDateTime=2024-01-01T00%3A00%3A00Z'',
           http_method = GET,
           headers = [(''Authorization'', authHeader this),
                      (''Content-Type'', ''application/json'')],
           body = None\<rparr>]"
proof -
  have qs: "URLSearchParams_toString [(''fromDateTime'', ''2024-01-01T00:00:00Z'')]
              = ''fromDateTime=2024-01-01T00%3A00%3A00Z''"
    by (simp add: URLSearchParams_toString_def form_encode_date form_encode_names)
  have ep: "with_query ''/calls'' [(''fromDateTime'', ''2024-01-01T00:00:00Z'')]
              = ''/calls?fromDateTime=2024-01-01T00%3A00%3A00Z''"
    unfolding with_query_def qs by simp
  have "exchanges (listCalls fetch this (Some ''2024-01-01T00:00:00Z'') None None None)
          = [request_of this ''/calls?fromDateTime=2024-01-01T00%3A00%3A00Z'' GET Undefined]"
    by (simp add: listCalls_def after_exchanges request_exchanges append_if_set_def ep)
  then have "exchanges (listCalls fetch this (Some ''2024-01-01T00:00:00Z'') None None None)
       = [\<lparr>url = ''https://api.gong.io/v2/calls?fromDateTime=2024-01-01T00%3A00%3A00Z'',
           http_method = GET,
           headers = [(''Authorization'', authHeader this),
                      (''Content-Type'', ''application/json'')],
           body = None\<rparr>]"
    by (simp add: request_of_def GONG_API_BASE_def)
  then show ?thesis by (simp add: searchCalls_def)
qed

subsection \<open>What a listing sends\<close>

lemma query_names_endpoint:
  assumes "CHR ''?'' \<notin> set base" and "CHR ''?'' \<notin> set path"
  shows "query_names (base @ with_query path qs) = map (\<lambda>kv. form_encode (fst kv)) qs"
proof -
  have eq: "base @ with_query path qs = (base @ path) @ with_query [] qs"
    by (simp add: with_query_def)
  have n: "CHR ''?'' \<notin> set (base @ path)"
    using assms by simp
  show ?thesis
    unfolding eq by (rule query_names_with_query [OF n])
qed

lemma request_of_url: "url (request_of this endpoint method b) = GONG_API_BASE @ endpoint"
  by (simp add: request_of_def)

lemma listCalls_query_names:
  "sent_query_names (listCalls fetch this f t w c)
     = map (\<lambda>kv. form_encode (fst kv))
         (append_if_set ''cursor'' c
           (append_if_set ''workspaceId'' w
             (append_if_set ''toDateTime'' t
               (append_if_set ''fromDateTime'' f []))))"
  (is "_ = map _ ?qs")
proof -
  have "sent_query_names (listCalls fetch this f t w c)
          = query_names (url (request_of this (with_query ''/calls'' ?qs) GET Undefined))"
    by (simp add: sent_query_names_def listCalls_def Let_def after_exchanges request_exchanges)
  also have "\<dots> = query_names (GONG_API_BASE @ with_query ''/calls'' ?qs)"
    by (simp only: request_of_url)
  also have "\<dots> = map (\<lambda>kv. form_encode (fst kv)) ?qs"
    by (rule query_names_endpoint) (simp_all add: GONG_API_BASE_def)
  finally show ?thesis .
qed

lemma listUsers_query_names:
  "sent_query_names (listUsers fetch this c)
     = map (\<lambda>kv. form_encode (fst kv)) (append_if_set ''cursor'' c [])"
  (is "_ = map _ ?qs")
proof -
  have "sent_query_names (listUsers fetch this c)
          = query_names (url (request_of this (with_query ''/users'' ?qs) GET Undefined))"
    by (simp add: sent_query_names_def listUsers_def Let_def after_exchanges request_exchanges)
  also have "\<dots> = query_names (GONG_API_BASE @ with_query ''/users'' ?qs)"
    by (simp only: request_of_url)
  also have "\<dots> = map (\<lambda>kv. form_encode (fst kv)) ?qs"
    by (rule query_names_endpoint) (simp_all add: GONG_API_BASE_def)
  finally show ?thesis .
qed

lemma listCalls_unset:
  "''fromDateTime'' \<notin> set (sent_query_names (listCalls fetch this None t w c))"
  "''toDateTime'' \<notin> set (sent_query_names (listCalls fetch this f None w c))"
  "''workspaceId'' \<notin> set (sent_query_names (listCalls fetch this f t None c))"
  "''cursor'' \<notin> set (sent_query_names (listCalls fetch this f t w None))"
  unfolding listCalls_query_names
  by (auto simp: append_if_set_def form_encode_names split: option.splits)

lemma listUsers_unset: "''cursor'' \<notin> set (sent_query_names (listUsers fetch this None))"
  unfolding listUsers_query_names by (simp add: append_if_set_def)

lemma get_sends_no_body:
  "sent_body_keys (listCalls fetch this f t w c) = []"
  "sent_filter_keys (listCalls fetch this f t w c) = []"
  "sent_body_keys (listUsers fetch this c) = []"
  "sent_filter_keys (listUsers fetch this c) = []"
  by (simp_all add: sent_body_keys_def sent_filter_keys_def listCalls_def listUsers_def Let_def
      after_exchanges request_exchanges request_of_def)

lemma filter_body_sent:
  "(if truthy (filter_body f t c) then JSON_stringify (filter_body f t c) else None)
     = Some (JObj ((''filter'',
                    JObj ((case f of None \<Rightarrow> [] | Some x \<Rightarrow> [(''fromDateTime'', JStr x)])
                          @ (case t of None \<Rightarrow> [] | Some y \<Rightarrow> [(''toDateTime'', JStr y)])))
                   # (case c of None \<Rightarrow> [] | Some z \<Rightarrow> [(''cursor'', JStr z)])))"
  by (cases f; cases t; cases c) (simp_all add: filter_body_def)

lemma post_listing_body:
  "map body (exchanges (listDeals fetch this f t c))
     = [Some (JObj ((''filter'',
                    JObj ((case f of None \<Rightarrow> [] | Some x \<Rightarrow> [(''fromDateTime'', JStr x)])
                          @ (case t of None \<Rightarrow> [] | Some y \<Rightarrow> [(''toDateTime'', JStr y)])))
                   # (case c of None \<Rightarrow> [] | Some z \<Rightarrow> [(''cursor'', JStr z)])))]"
  "map body (exchanges (listEmails fetch this f t c))
     = [Some (JObj ((''filter'',
                    JObj ((case f of None \<Rightarrow> [] | Some x \<Rightarrow> [(''fromDateTime'', JStr x)])
                          @ (case t of None \<Rightarrow> [] | Some y \<Rightarrow> [(''toDateTime'', JStr y)])))
                   # (case c of None \<Rightarrow> [] | Some z \<Rightarrow> [(''cursor'', JStr z)])))]"
  unfolding listDeals_def listEmails_def after_exchanges request_exchanges
  by (simp_all add: request_of_def filter_body_sent)

lemma sent_keys_via_body:
  "sent_body_keys r
     = concat (map (\<lambda>b. case b of None \<Rightarrow> [] | Some j \<Rightarrow> json_keys j) (map body (exchanges r)))"
  "sent_filter_keys r
     = concat (map (\<lambda>b. case b of None \<Rightarrow> []
                         | Some j \<Rightarrow> (case json_member j ''filter'' of None \<Rightarrow> []
                                       | Some f \<Rightarrow> json_keys f)) (map body (exchanges r)))"
  by (simp_all add: sent_body_keys_def sent_filter_keys_def comp_def)

lemma post_listing_unset:
  "''fromDateTime'' \<notin> set (sent_filter_keys (listDeals fetch this None t c))"
  "''toDateTime'' \<notin> set (sent_filter_keys (listDeals fetch this f None c))"
  "''cursor'' \<notin> set (sent_body_keys (listDeals fetch this f t None))"
  "''fromDateTime'' \<notin> set (sent_filter_keys (listEmails fetch this None t c))"
  "''toDateTime'' \<notin> set (sent_filter_keys (listEmails fetch this f None c))"
  "''cursor'' \<notin> set (sent_body_keys (listEmails fetch this f t None))"
  unfolding sent_keys_via_body post_listing_body
  by (auto split: option.splits)

lemma post_listing_no_query:
  "sent_query_names (listDeals fetch this f t c) = []"
  "sent_query_names (listEmails fetch this f t c) = []"
  by (simp_all add: sent_query_names_def listDeals_def listEmails_def after_exchanges
      request_exchanges request_of_def query_names_def query_of_def GONG_API_BASE_def)

text \<open>
  Claim C4. A filter the caller leaves unset is not sent. For the GET listings
  \<^verbatim>\<open>listCalls\<close> and \<^verbatim>\<open>listUsers\<close>, the query string of the request has no parameter of
  that name (and the request has no body); for the POST listings \<^verbatim>\<open>listDeals\<close> and
  \<^verbatim>\<open>listEmails\<close>, an unset \<^verbatim>\<open>fromDateTime\<close> or \<^verbatim>\<open>toDateTime\<close> is no key of the
  body's \<^verbatim>\<open>filter\<close> object and an unset \<^verbatim>\<open>cursor\<close> is no key of the body (and the
  URL has no query string). Filters that are set do go out, as the last three
  conjuncts show on examples.
\<close>

theorem unset_filters_not_sent:
  "''fromDateTime'' \<notin> set (sent_query_names (listCalls fetch this None t w c))
   \<and> ''toDateTime'' \<notin> set (sent_query_names (listCalls fetch this f None w c))
   \<and> ''workspaceId'' \<notin> set (sent_query_names (listCalls fetch this f t None c))
   \<and> ''cursor'' \<notin> set (sent_query_names (listCalls fetch this f t w None))
   \<and> sent_body_keys (listCalls fetch this f t w c) = []
   \<and> ''cursor'' \<notin> set (sent_query_names (listUsers fetch this None))
   \<and> sent_body_keys (listUsers fetch this c) = []
   \<and> ''fromDateTime'' \<notin> set (sent_filter_keys (listDeals fetch this None t c))
   \<and> ''toDateTime'' \<notin> set (sent_filter_keys (listDeals fetch this f None c))
   \<and> ''cursor'' \<notin> set (sent_body_keys (listDeals fetch this f t None))
   \<and> sent_query_names (listDeals fetch this f t c) = []
   \<and> ''fromDateTime'' \<notin> set (sent_filter_keys (listEmails fetch this None t c))
   \<and> ''toDateTime'' \<notin> set (sent_filter_keys (listEmails fetch this f None c))
   \<and> ''cursor'' \<notin> set (sent_body_keys (listEmails fetch this f t None))
   \<and> sent_query_names (listEmails fetch this f t c) = []
   \<and> sent_query_names (listCalls fetch this (Some ''2024-01-01T00:00:00Z'') None None
                          (Some ''eyJwIjoyfQ''))
       = [''fromDateTime'', ''cursor'']
   \<and> sent_filter_keys (listDeals fetch this None (Some ''2024-02-01T00:00:00Z'') None)
       = [''toDateTime'']
   \<and> sent_body_keys (listEmails fetch this None None (Some ''eyJwIjoyfQ''))
       = [''filter'', ''cursor'']"
proof -
  have a: "sent_query_names (listCalls fetch this (Some ''2024-01-01T00:00:00Z'') None None
                          (Some ''eyJwIjoyfQ''))
       = [''fromDateTime'', ''cursor'']"
    unfolding listCalls_query_names by (simp add: append_if_set_def form_encode_names)
  have b: "sent_filter_keys (listDeals fetch this None (Some ''2024-02-01T00:00:00Z'') None)
       = [''toDateTime'']"
    unfolding sent_keys_via_body post_listing_body by simp
  have c: "sent_body_keys (listEmails fetch this None None (Some ''eyJwIjoyfQ''))
       = [''filter'', ''cursor'']"
    unfolding sent_keys_via_body post_listing_body by simp
  note listCalls_unset listUsers_unset get_sends_no_body post_listing_unset post_listing_no_query
  with a b c show ?thesis by (intro conjI) (assumption | rule)+
qed

end
